theory Spec2Isabelle
  imports Main "HOL-Library.Sublist"
begin

section \<open>Task orchestration and session history of the alignment service\<close>

text \<open>
  A shallow embedding of \<^verbatim>\<open>src/app.py\<close> (\<^verbatim>\<open>save_to_db\<close>,
  \<^verbatim>\<open>run_alignment\<close>, \<^verbatim>\<open>show_history\<close>) and of the table created by
  \<^verbatim>\<open>src/init_db.py\<close>. Python strings are modelled as \<^typ>\<open>string\<close>, holding
  the UTF-8 encoding of the text. Everything the program does to the outside is explicit:
  the functions take a \<open>world\<close> (UUIDs drawn, files, processes requested, database
  connections, the \<^verbatim>\<open>history\<close> table, the log) and return the new one, and what
  the outside answers during one call (the UUID generator, the clock, I/O errors, the
  external aligner, database errors, the decoding of text files) is read from an \<open>env\<close>. The advisory
  \<^verbatim>\<open>progress(...)\<close> calls have no effect on the results and are left out.
\<close>

subsection \<open>Python values\<close>

text \<open>The values a session state holds under a key: \<^verbatim>\<open>None\<close> or a \<^verbatim>\<open>str\<close>.\<close>

datatype pyval = PyNone | PyStr string

text \<open>The \<^verbatim>\<open>gr.State\<close> dictionary.\<close>

type_synonym session_state = "string \<rightharpoonup> pyval"

text \<open>\<^verbatim>\<open>d.get(k)\<close>: \<^verbatim>\<open>None\<close> when the key is missing.\<close>

definition dict_get :: "session_state \<Rightarrow> string \<Rightarrow> pyval" where
  "dict_get d k = (case d k of None \<Rightarrow> PyNone | Some v \<Rightarrow> v)"

text \<open>Truth value of a Python value (\<^verbatim>\<open>not session_id\<close> at line 142).\<close>

fun truthy :: "pyval \<Rightarrow> bool" where
  "truthy PyNone = False"
| "truthy (PyStr s) = (s \<noteq> [])"

text \<open>
  The uploaded file object: \<^verbatim>\<open>None\<close> is \<open>None :: file_obj option\<close>; otherwise an
  object that has a \<^verbatim>\<open>name\<close> attribute (the path of Gradio's temporary file) or
  has none.
\<close>

datatype file_obj = TemporaryFileWrapper string | Nameless

text \<open>
  Exceptions, each with its \<^verbatim>\<open>str(e)\<close>. The handlers of \<^verbatim>\<open>run_alignment\<close>
  tell \<^verbatim>\<open>FileNotFoundError\<close> from every other \<^verbatim>\<open>Exception\<close>;
  \<^verbatim>\<open>CalledProcessError\<close> is raised by \<^verbatim>\<open>check=True\<close> alone and is
  modelled where it is raised.
\<close>

datatype exn = FileNotFoundError string | TypeError string | Exception string

fun str_exn :: "exn \<Rightarrow> string" where
  "str_exn (FileNotFoundError m) = m"
| "str_exn (TypeError m) = m"
| "str_exn (Exception m) = m"

text \<open>\<^verbatim>\<open>str(n)\<close> for an integer.\<close>

definition digit_char :: "nat \<Rightarrow> char" where
  "digit_char d = char_of (48 + d)"

fun str_nat :: "nat \<Rightarrow> string" where
  "str_nat n = (if n < 10 then [digit_char n] else str_nat (n div 10) @ [digit_char (n mod 10)])"

definition str_int :: "int \<Rightarrow> string" where
  "str_int i = (if i < 0 then CHR ''-'' # str_nat (nat (- i)) else str_nat (nat i))"

text \<open>\<^verbatim>\<open>sep.join(xs)\<close>.\<close>

fun join :: "string \<Rightarrow> string list \<Rightarrow> string" where
  "join sep [] = []"
| "join sep [x] = x"
| "join sep (x # y # ys) = x @ sep @ join sep (y # ys)"

text \<open>\<^verbatim>\<open>s[-6:]\<close>: the last six characters, all of \<open>s\<close> when it is shorter.\<close>

definition last6 :: "string \<Rightarrow> string" where
  "last6 s = drop (length s - 6) s"

text \<open>
  SQLite's \<^verbatim>\<open>REPLACE(X, Y, Z)\<close>: every occurrence of \<open>Y\<close> in \<open>X\<close>, found from the
  left, is replaced by \<open>Z\<close>; an empty \<open>Y\<close> leaves \<open>X\<close> as it is.
\<close>

function sql_replace :: "string \<Rightarrow> string \<Rightarrow> string \<Rightarrow> string" where
  "sql_replace [] y z = []"
| "sql_replace (c # cs) y z =
     (if y \<noteq> [] \<and> prefix y (c # cs) then z @ sql_replace (drop (length y) (c # cs)) y z
      else c # sql_replace cs y z)"
  by pat_completeness auto
termination
  by (relation "measure (\<lambda>(x, y, z). length x)") auto

subsection \<open>User-facing texts\<close>

text \<open>
  The literals of the source are Chinese; they are given here by their UTF-8 bytes, with an
  English gloss.
\<close>

text \<open>Line 45, UTF-8 encoded: \<^verbatim>\<open>Please upload a FASTA file.\<close>\<close>

definition msg_upload_fasta :: "string" where
  "msg_upload_fasta =
     [CHR 0xE8, CHR 0xAF, CHR 0xB7, CHR 0xE4, CHR 0xB8, CHR 0x8A, CHR 0xE4, CHR 0xBC, CHR 0xA0] @
     ''FASTA'' @
     [CHR 0xE6, CHR 0x96, CHR 0x87, CHR 0xE4, CHR 0xBB, CHR 0xB6, CHR 0xE3, CHR 0x80, CHR 0x82]"

text \<open>Line 45, UTF-8 encoded: \<^verbatim>\<open>Error: no file uploaded\<close>\<close>

definition status_no_file :: "string" where
  "status_no_file =
     [CHR 0xE9, CHR 0x94, CHR 0x99, CHR 0xE8, CHR 0xAF, CHR 0xAF, CHR 0xEF, CHR 0xBC, CHR 0x9A,
      CHR 0xE6, CHR 0x9C, CHR 0xAA, CHR 0xE4, CHR 0xB8, CHR 0x8A, CHR 0xE4, CHR 0xBC, CHR 0xA0,
      CHR 0xE6, CHR 0x96, CHR 0x87, CHR 0xE4, CHR 0xBB, CHR 0xB6]"

text \<open>Line 74, UTF-8 encoded: \<^verbatim>\<open>Error while handling the uploaded file: {e}\<close>\<close>

definition msg_upload_error :: "string \<Rightarrow> string" where
  "msg_upload_error e =
     [CHR 0xE5, CHR 0xA4, CHR 0x84, CHR 0xE7, CHR 0x90, CHR 0x86, CHR 0xE4, CHR 0xB8, CHR 0x8A,
      CHR 0xE4, CHR 0xBC, CHR 0xA0, CHR 0xE6, CHR 0x96, CHR 0x87, CHR 0xE4, CHR 0xBB, CHR 0xB6,
      CHR 0xE6, CHR 0x97, CHR 0xB6, CHR 0xE5, CHR 0x87, CHR 0xBA, CHR 0xE9, CHR 0x94, CHR 0x99] @
     '': '' @
     e"

text \<open>Line 74, UTF-8 encoded: \<^verbatim>\<open>Error: saving the file failed\<close>\<close>

definition status_save_failed :: "string" where
  "status_save_failed =
     [CHR 0xE9, CHR 0x94, CHR 0x99, CHR 0xE8, CHR 0xAF, CHR 0xAF, CHR 0xEF, CHR 0xBC, CHR 0x9A,
      CHR 0xE6, CHR 0x96, CHR 0x87, CHR 0xE4, CHR 0xBB, CHR 0xB6, CHR 0xE4, CHR 0xBF, CHR 0x9D,
      CHR 0xE5, CHR 0xAD, CHR 0x98, CHR 0xE5, CHR 0xA4, CHR 0xB1, CHR 0xE8, CHR 0xB4, CHR 0xA5]"

text \<open>Line 95, UTF-8 encoded: \<^verbatim>\<open>Invalid alignment tool selection.\<close>\<close>

definition msg_invalid_tool :: "string" where
  "msg_invalid_tool =
     [CHR 0xE6, CHR 0x97, CHR 0xA0, CHR 0xE6, CHR 0x95, CHR 0x88, CHR 0xE7, CHR 0x9A, CHR 0x84,
      CHR 0xE6, CHR 0xAF, CHR 0x94, CHR 0xE5, CHR 0xAF, CHR 0xB9, CHR 0xE5, CHR 0xB7, CHR 0xA5,
      CHR 0xE5, CHR 0x85, CHR 0xB7, CHR 0xE9, CHR 0x80, CHR 0x89, CHR 0xE6, CHR 0x8B, CHR 0xA9,
      CHR 0xE3, CHR 0x80, CHR 0x82]"

text \<open>Line 95, UTF-8 encoded: \<^verbatim>\<open>Error: invalid tool\<close>\<close>

definition status_invalid_tool :: "string" where
  "status_invalid_tool =
     [CHR 0xE9, CHR 0x94, CHR 0x99, CHR 0xE8, CHR 0xAF, CHR 0xAF, CHR 0xEF, CHR 0xBC, CHR 0x9A,
      CHR 0xE6, CHR 0x97, CHR 0xA0, CHR 0xE6, CHR 0x95, CHR 0x88, CHR 0xE5, CHR 0xB7, CHR 0xA5,
      CHR 0xE5, CHR 0x85, CHR 0xB7]"

text \<open>Line 99, UTF-8 encoded: \<^verbatim>\<open>Error: command '{command[0]}' not found. Make sure {tool} is installed and on the system PATH.\<close>\<close>

definition msg_command_not_found :: "string \<Rightarrow> string \<Rightarrow> string" where
  "msg_command_not_found cmd tool =
     [CHR 0xE9, CHR 0x94, CHR 0x99, CHR 0xE8, CHR 0xAF, CHR 0xAF] @
     '': '' @
     [CHR 0xE5, CHR 0x91, CHR 0xBD, CHR 0xE4, CHR 0xBB, CHR 0xA4] @
     '' '' @
     [CHR 0x27] @
     cmd @
     [CHR 0x27] @
     '' '' @
     [CHR 0xE6, CHR 0x9C, CHR 0xAA, CHR 0xE6, CHR 0x89, CHR 0xBE, CHR 0xE5, CHR 0x88, CHR 0xB0,
      CHR 0xE3, CHR 0x80, CHR 0x82, CHR 0xE8, CHR 0xAF, CHR 0xB7, CHR 0xE7, CHR 0xA1, CHR 0xAE,
      CHR 0xE4, CHR 0xBF, CHR 0x9D] @
     '' '' @
     tool @
     '' '' @
     [CHR 0xE5, CHR 0xB7, CHR 0xB2, CHR 0xE5, CHR 0xAE, CHR 0x89, CHR 0xE8, CHR 0xA3, CHR 0x85,
      CHR 0xE5, CHR 0xB9, CHR 0xB6, CHR 0xE5, CHR 0xB7, CHR 0xB2, CHR 0xE6, CHR 0xB7, CHR 0xBB,
      CHR 0xE5, CHR 0x8A, CHR 0xA0, CHR 0xE5, CHR 0x88, CHR 0xB0, CHR 0xE7, CHR 0xB3, CHR 0xBB,
      CHR 0xE7, CHR 0xBB, CHR 0x9F] @
     '' PATH'' @
     [CHR 0xE3, CHR 0x80, CHR 0x82]"

text \<open>Line 99, UTF-8 encoded: \<^verbatim>\<open>Error: {tool} not found\<close>\<close>

definition status_tool_not_found :: "string \<Rightarrow> string" where
  "status_tool_not_found tool =
     [CHR 0xE9, CHR 0x94, CHR 0x99, CHR 0xE8, CHR 0xAF, CHR 0xAF, CHR 0xEF, CHR 0xBC, CHR 0x9A] @
     tool @
     '' '' @
     [CHR 0xE6, CHR 0x9C, CHR 0xAA, CHR 0xE6, CHR 0x89, CHR 0xBE, CHR 0xE5, CHR 0x88, CHR 0xB0]"

text \<open>Line 105, UTF-8 encoded: \<^verbatim>\<open>{tool} failed while running. Error message: {error_detail}\<close>\<close>

definition msg_tool_failed :: "string \<Rightarrow> string \<Rightarrow> string" where
  "msg_tool_failed tool error_detail =
     tool @
     '' '' @
     [CHR 0xE8, CHR 0xBF, CHR 0x90, CHR 0xE8, CHR 0xA1, CHR 0x8C, CHR 0xE6, CHR 0x97, CHR 0xB6,
      CHR 0xE5, CHR 0x87, CHR 0xBA, CHR 0xE9, CHR 0x94, CHR 0x99, CHR 0xE3, CHR 0x80, CHR 0x82,
      CHR 0x0A, CHR 0xE9, CHR 0x94, CHR 0x99, CHR 0xE8, CHR 0xAF, CHR 0xAF, CHR 0xE4, CHR 0xBF,
      CHR 0xA1, CHR 0xE6, CHR 0x81, CHR 0xAF] @
     '':'' @
     [CHR 0x0A] @
     error_detail"

text \<open>Line 105, UTF-8 encoded: \<^verbatim>\<open>Error: {tool} run failed\<close>\<close>

definition status_tool_failed :: "string \<Rightarrow> string" where
  "status_tool_failed tool =
     [CHR 0xE9, CHR 0x94, CHR 0x99, CHR 0xE8, CHR 0xAF, CHR 0xAF, CHR 0xEF, CHR 0xBC, CHR 0x9A] @
     tool @
     '' '' @
     [CHR 0xE8, CHR 0xBF, CHR 0x90, CHR 0xE8, CHR 0xA1, CHR 0x8C, CHR 0xE5, CHR 0xA4, CHR 0xB1,
      CHR 0xE8, CHR 0xB4, CHR 0xA5]"

text \<open>Line 108, UTF-8 encoded: \<^verbatim>\<open>An unexpected error occurred during alignment: {e}\<close>\<close>

definition msg_unexpected_error :: "string \<Rightarrow> string" where
  "msg_unexpected_error e =
     [CHR 0xE6, CHR 0xAF, CHR 0x94, CHR 0xE5, CHR 0xAF, CHR 0xB9, CHR 0xE8, CHR 0xBF, CHR 0x87,
      CHR 0xE7, CHR 0xA8, CHR 0x8B, CHR 0xE4, CHR 0xB8, CHR 0xAD, CHR 0xE5, CHR 0x8F, CHR 0x91,
      CHR 0xE7, CHR 0x94, CHR 0x9F, CHR 0xE6, CHR 0x84, CHR 0x8F, CHR 0xE5, CHR 0xA4, CHR 0x96,
      CHR 0xE9, CHR 0x94, CHR 0x99, CHR 0xE8, CHR 0xAF, CHR 0xAF] @
     '': '' @
     e"

text \<open>Line 108, UTF-8 encoded: \<^verbatim>\<open>Error: alignment exception\<close>\<close>

definition status_exception :: "string" where
  "status_exception =
     [CHR 0xE9, CHR 0x94, CHR 0x99, CHR 0xE8, CHR 0xAF, CHR 0xAF, CHR 0xEF, CHR 0xBC, CHR 0x9A,
      CHR 0xE6, CHR 0xAF, CHR 0x94, CHR 0xE5, CHR 0xAF, CHR 0xB9, CHR 0xE5, CHR 0xBC, CHR 0x82,
      CHR 0xE5, CHR 0xB8, CHR 0xB8]"

text \<open>Line 119, UTF-8 encoded: \<^verbatim>\<open>Alignment succeeded, but reading the result file failed.\<close>\<close>

definition msg_read_failed :: "string" where
  "msg_read_failed =
     [CHR 0xE6, CHR 0xAF, CHR 0x94, CHR 0xE5, CHR 0xAF, CHR 0xB9, CHR 0xE6, CHR 0x88, CHR 0x90,
      CHR 0xE5, CHR 0x8A, CHR 0x9F, CHR 0xEF, CHR 0xBC, CHR 0x8C, CHR 0xE4, CHR 0xBD, CHR 0x86,
      CHR 0xE8, CHR 0xAF, CHR 0xBB, CHR 0xE5, CHR 0x8F, CHR 0x96, CHR 0xE7, CHR 0xBB, CHR 0x93,
      CHR 0xE6, CHR 0x9E, CHR 0x9C, CHR 0xE6, CHR 0x96, CHR 0x87, CHR 0xE4, CHR 0xBB, CHR 0xB6,
      CHR 0xE6, CHR 0x97, CHR 0xB6, CHR 0xE5, CHR 0x87, CHR 0xBA, CHR 0xE9, CHR 0x94, CHR 0x99,
      CHR 0xE3, CHR 0x80, CHR 0x82]"

text \<open>Line 119, UTF-8 encoded: \<^verbatim>\<open>Error: reading the result failed\<close>\<close>

definition status_read_failed :: "string" where
  "status_read_failed =
     [CHR 0xE9, CHR 0x94, CHR 0x99, CHR 0xE8, CHR 0xAF, CHR 0xAF, CHR 0xEF, CHR 0xBC, CHR 0x9A,
      CHR 0xE7, CHR 0xBB, CHR 0x93, CHR 0xE6, CHR 0x9E, CHR 0x9C, CHR 0xE8, CHR 0xAF, CHR 0xBB,
      CHR 0xE5, CHR 0x8F, CHR 0x96, CHR 0xE5, CHR 0xA4, CHR 0xB1, CHR 0xE8, CHR 0xB4, CHR 0xA5]"

text \<open>Line 111, UTF-8 encoded: \<^verbatim>\<open>Alignment finished ({tool}).\<close>\<close>

definition status_done :: "string \<Rightarrow> string" where
  "status_done tool =
     [CHR 0xE6, CHR 0xAF, CHR 0x94, CHR 0xE5, CHR 0xAF, CHR 0xB9, CHR 0xE5, CHR 0xAE, CHR 0x8C,
      CHR 0xE6, CHR 0x88, CHR 0x90] @
     '' ('' @
     tool @
     '')'' @
     [CHR 0xE3, CHR 0x80, CHR 0x82]"

text \<open>Line 143, UTF-8 encoded: \<^verbatim>\<open>The current session has no history.\<close>\<close>

definition msg_no_history :: "string" where
  "msg_no_history =
     [CHR 0xE5, CHR 0xBD, CHR 0x93, CHR 0xE5, CHR 0x89, CHR 0x8D, CHR 0xE4, CHR 0xBC, CHR 0x9A,
      CHR 0xE8, CHR 0xAF, CHR 0x9D, CHR 0xE6, CHR 0xB2, CHR 0xA1, CHR 0xE6, CHR 0x9C, CHR 0x89,
      CHR 0xE5, CHR 0x8E, CHR 0x86, CHR 0xE5, CHR 0x8F, CHR 0xB2, CHR 0xE8, CHR 0xAE, CHR 0xB0,
      CHR 0xE5, CHR 0xBD, CHR 0x95, CHR 0xE3, CHR 0x80, CHR 0x82]"

text \<open>Line 161, UTF-8 encoded: \<^verbatim>\<open>Cannot load the history: {e}\<close>\<close>

definition msg_cannot_load_history :: "string \<Rightarrow> string" where
  "msg_cannot_load_history e =
     [CHR 0xE6, CHR 0x97, CHR 0xA0, CHR 0xE6, CHR 0xB3, CHR 0x95, CHR 0xE5, CHR 0x8A, CHR 0xA0,
      CHR 0xE8, CHR 0xBD, CHR 0xBD, CHR 0xE5, CHR 0x8E, CHR 0x86, CHR 0xE5, CHR 0x8F, CHR 0xB2,
      CHR 0xE8, CHR 0xAE, CHR 0xB0, CHR 0xE5, CHR 0xBD, CHR 0x95] @
     '': '' @
     e"

text \<open>Line 164, UTF-8 encoded: \<^verbatim>\<open>The current session (ID: ...{session_id[-6:]}) has no history.\<close>\<close>

definition msg_no_history_for :: "string \<Rightarrow> string" where
  "msg_no_history_for tail =
     [CHR 0xE5, CHR 0xBD, CHR 0x93, CHR 0xE5, CHR 0x89, CHR 0x8D, CHR 0xE4, CHR 0xBC, CHR 0x9A,
      CHR 0xE8, CHR 0xAF, CHR 0x9D] @
     '' (ID: ...'' @
     tail @
     '') '' @
     [CHR 0xE6, CHR 0xB2, CHR 0xA1, CHR 0xE6, CHR 0x9C, CHR 0x89, CHR 0xE5, CHR 0x8E, CHR 0x86,
      CHR 0xE5, CHR 0x8F, CHR 0xB2, CHR 0xE8, CHR 0xAE, CHR 0xB0, CHR 0xE5, CHR 0xBD, CHR 0x95,
      CHR 0xE3, CHR 0x80, CHR 0x82]"

text \<open>Line 166, UTF-8 encoded: \<^verbatim>\<open>Time, Tool, Input file, Output file (tab separated), a rule of 50 dashes\<close>\<close>

definition history_header :: "string" where
  "history_header =
     [CHR 0xE6, CHR 0x97, CHR 0xB6, CHR 0xE9, CHR 0x97, CHR 0xB4, CHR 0x09, CHR 0xE5, CHR 0xB7,
      CHR 0xA5, CHR 0xE5, CHR 0x85, CHR 0xB7, CHR 0x09, CHR 0xE8, CHR 0xBE, CHR 0x93, CHR 0xE5,
      CHR 0x85, CHR 0xA5, CHR 0xE6, CHR 0x96, CHR 0x87, CHR 0xE4, CHR 0xBB, CHR 0xB6, CHR 0x09,
      CHR 0xE8, CHR 0xBE, CHR 0x93, CHR 0xE5, CHR 0x87, CHR 0xBA, CHR 0xE6, CHR 0x96, CHR 0x87,
      CHR 0xE4, CHR 0xBB, CHR 0xB6, CHR 0x0A] @
     replicate 50 (CHR ''-'') @
     [CHR 0x0A]"

subsection \<open>The outside world\<close>

text \<open>
  A row of the table \<^verbatim>\<open>history\<close> of \<^verbatim>\<open>init_db.py\<close>; \<open>col_id\<close> is the
  \<^verbatim>\<open>INTEGER PRIMARY KEY AUTOINCREMENT\<close>.
\<close>

record history_row =
  col_id :: nat
  col_session_id :: string
  col_task_id :: string
  col_tool :: string
  col_input_file :: string
  col_output_file :: string
  col_timestamp :: string

datatype log_level = INFO | WARNING | ERROR

datatype fs_op = OpenRead | OpenWrite

text \<open>
  What \<^verbatim>\<open>subprocess.run\<close> meets: it raises an exception other than
  \<^verbatim>\<open>CalledProcessError\<close> (typically the program could not be started), or the
  program ran and exited with a return code, the text of its standard output, the text of
  its standard error and the file system as it left it.
\<close>

datatype proc_outcome = NotStarted exn | Exited int string string "string \<rightharpoonup> string"

text \<open>
  \<open>uuid_calls\<close> counts the calls of \<^verbatim>\<open>uuid.uuid4()\<close>, \<open>files\<close> is the file
  system (path to content), \<open>subprocess_calls\<close> lists the calls of
  \<^verbatim>\<open>subprocess.run\<close> (the command line and what became of it), \<open>db_connects\<close>
  counts the calls of \<^verbatim>\<open>sqlite3.connect\<close>, \<open>history\<close> holds the rows of the table
  in the order of their insertion, and \<open>log_records\<close> is what \<^verbatim>\<open>logging\<close> has
  written.
\<close>

record world =
  uuid_calls :: nat
  files :: "string \<rightharpoonup> string"
  subprocess_calls :: "(string list \<times> proc_outcome) list"
  db_connects :: nat
  history :: "history_row list"
  log_records :: "(log_level \<times> string) list"

text \<open>
  The answers of the outside during one call: \<open>uuid4 env n\<close> is the \<^verbatim>\<open>.hex\<close> of the
  UUID drawn by call number \<open>n\<close>; \<open>strftime_now\<close> and \<open>isoformat_now\<close> are the clock
  readings of lines 58 and 121; \<open>fs_fault\<close> is the exception that opening a path raises,
  if any; \<open>subprocess_run\<close> is the behaviour of the external program on a command line and
  a file system; \<open>sqlite_fault\<close> is the message of the \<^verbatim>\<open>sqlite3.Error\<close> that the
  database raises, if any; \<open>repr_state\<close> is Python's rendering of a dictionary;
  \<open>decode_text\<close> is the decoding of the bytes of a file opened in text mode by the
  platform's preferred encoding: the \<^verbatim>\<open>UnicodeDecodeError\<close> it raises, or the decoded
  text (held, like every string here, by its UTF-8 bytes).
\<close>

record env =
  uuid4 :: "nat \<Rightarrow> string"
  strftime_now :: string
  isoformat_now :: string
  fs_fault :: "fs_op \<Rightarrow> string \<Rightarrow> exn option"
  subprocess_run :: "string list \<Rightarrow> (string \<rightharpoonup> string) \<Rightarrow> proc_outcome"
  sqlite_fault :: "string option"
  repr_state :: "session_state \<Rightarrow> string"
  decode_text :: "string \<Rightarrow> exn + string"

text \<open>\<^verbatim>\<open>str(u)\<close> of a UUID with hexadecimal digits \<open>h\<close>: groups of 8-4-4-4-12.\<close>

definition uuid_str :: "string \<Rightarrow> string" where
  "uuid_str h = take 8 h @ ''-'' @ take 4 (drop 8 h) @ ''-'' @ take 4 (drop 12 h) @ ''-'' @
     take 4 (drop 16 h) @ ''-'' @ drop 20 h"

definition logging :: "log_level \<Rightarrow> string \<Rightarrow> world \<Rightarrow> world" where
  "logging lvl m w = w\<lparr>log_records := log_records w @ [(lvl, m)]\<rparr>"

text \<open>
  Line 69: opening a file in binary mode (\<^verbatim>\<open>"rb"\<close>) and reading all of its bytes.
\<close>

definition open_read :: "env \<Rightarrow> world \<Rightarrow> string \<Rightarrow> exn + string" where
  "open_read env w path =
     (case fs_fault env OpenRead path of
        Some e \<Rightarrow> Inl e
      | None \<Rightarrow>
          (case files w path of
             None \<Rightarrow> Inl (FileNotFoundError
                       (''[Errno 2] No such file or directory: '' @ [CHR 0x27] @ path @ [CHR 0x27]))
           | Some content \<Rightarrow> Inr content))"

text \<open>
  Reading in text mode translates every pair CR LF and every remaining CR to LF
  (universal newlines).
\<close>

fun universal_newlines :: "string \<Rightarrow> string" where
  "universal_newlines [] = []"
| "universal_newlines (c # cs) =
     (if c = CHR 0x0D
      then (case cs of
              [] \<Rightarrow> [CHR 0x0A]
            | d # ds \<Rightarrow>
                if d = CHR 0x0A then CHR 0x0A # universal_newlines ds
                else CHR 0x0A # universal_newlines cs)
      else c # universal_newlines cs)"

text \<open>
  Lines 114-115: opening a file in text mode (\<^verbatim>\<open>"r"\<close>) and reading all of it. The
  bytes are decoded, which may raise, and the newlines are translated.
\<close>

definition read_text :: "env \<Rightarrow> world \<Rightarrow> string \<Rightarrow> exn + string" where
  "read_text env w path =
     (case open_read env w path of
        Inl e \<Rightarrow> Inl e
      | Inr bytes \<Rightarrow>
          (case decode_text env bytes of
             Inl e \<Rightarrow> Inl e
           | Inr decoded \<Rightarrow> Inr (universal_newlines decoded)))"

subsection \<open>The history table\<close>

text \<open>\<^verbatim>\<open>AUTOINCREMENT\<close>: one more than the largest id in the table (rows are never deleted).\<close>

definition next_row_id :: "history_row list \<Rightarrow> nat" where
  "next_row_id t = Suc (fold max (map col_id t) 0)"

text \<open>
  The \<^verbatim>\<open>INSERT\<close> of lines 24-28 on a table: \<^verbatim>\<open>task_id\<close> is \<^verbatim>\<open>UNIQUE\<close>, so a
  task id already in the table makes the statement fail (\<open>Inl\<close>, the message of the
  \<^verbatim>\<open>sqlite3.IntegrityError\<close>).
\<close>

definition insert_history ::
  "history_row list \<Rightarrow> string \<Rightarrow> string \<Rightarrow> string \<Rightarrow> string \<Rightarrow> string \<Rightarrow> string \<Rightarrow>
   string + history_row list" where
  "insert_history t sid tid tool inp outp ts =
     (if tid \<in> set (map col_task_id t) then Inl ''UNIQUE constraint failed: history.task_id''
      else Inr (t @ [\<lparr>col_id = next_row_id t, col_session_id = sid, col_task_id = tid,
                      col_tool = tool, col_input_file = inp, col_output_file = outp,
                      col_timestamp = ts\<rparr>]))"

text \<open>Lines 20-32.\<close>

definition save_to_db ::
  "env \<Rightarrow> string \<Rightarrow> string \<Rightarrow> string \<Rightarrow> string \<Rightarrow> string \<Rightarrow> string \<Rightarrow> world \<Rightarrow> world" where
  "save_to_db env sid tid tool inp outp ts w =
     (let w1 = w\<lparr>db_connects := Suc (db_connects w)\<rparr> in
      case (case sqlite_fault env of
              Some m \<Rightarrow> Inl m
            | None \<Rightarrow> insert_history (history w1) sid tid tool inp outp ts) of
        Inr t \<Rightarrow>
          logging INFO (''Saved task '' @ tid @ '' for session '' @ sid @ '' to DB.'')
            (w1\<lparr>history := t\<rparr>)
      | Inl m \<Rightarrow> logging ERROR (''Database error saving task '' @ tid @ '': '' @ m) w1)"

text \<open>
  The \<^verbatim>\<open>SELECT\<close> of lines 148-156: the rows of the session, by descending id, at
  most 20, each as (timestamp, tool, input, output) with the directory prefixes removed.
\<close>

definition select_columns :: "history_row \<Rightarrow> string \<times> string \<times> string \<times> string" where
  "select_columns r =
     (col_timestamp r, col_tool r,
      sql_replace (col_input_file r) ''uploads/'' [],
      sql_replace (col_output_file r) ''results/'' [])"

definition select_history ::
  "history_row list \<Rightarrow> string \<Rightarrow> (string \<times> string \<times> string \<times> string) list" where
  "select_history t sid =
     map select_columns
       (take 20 (rev (sort_key col_id (filter (\<lambda>r. col_session_id r = sid) t))))"

subsection \<open>Submitting a task: \<^verbatim>\<open>run_alignment\<close>\<close>

text \<open>The three outputs: result text, downloadable artifact (possibly \<^verbatim>\<open>None\<close>), status.\<close>

type_synonym outputs = "string \<times> string option \<times> string"

text \<open>
  Lines 38-40 and 133-135: a state received as \<^verbatim>\<open>None\<close> is replaced by an empty
  dictionary.
\<close>

definition state_dict :: "session_state option \<Rightarrow> session_state" where
  "state_dict current_session_state =
     (case current_session_state of None \<Rightarrow> Map.empty | Some d \<Rightarrow> d)"

text \<open>
  Lines 48-55: the session id of the state, or a fresh one that is stored into the state.
\<close>

definition resolve_session :: "env \<Rightarrow> session_state \<Rightarrow> world \<Rightarrow> string \<times> session_state \<times> world" where
  "resolve_session env state w =
     (case dict_get state ''session_id'' of
        PyNone \<Rightarrow>
          (let session_id = uuid_str (uuid4 env (uuid_calls w));
               w1 = w\<lparr>uuid_calls := Suc (uuid_calls w)\<rparr>
           in (session_id, state(''session_id'' \<mapsto> PyStr session_id),
               logging INFO (''New session created and stored in state: '' @ session_id) w1))
      | PyStr session_id \<Rightarrow>
          (session_id, state,
           logging INFO (''Using existing session from state: '' @ session_id) w))"

text \<open>
  Lines 65-71, the body of the first \<^verbatim>\<open>try\<close>: \<open>Inl e\<close> when it raises \<open>e\<close>.
\<close>

definition stage_input :: "env \<Rightarrow> file_obj \<Rightarrow> string \<Rightarrow> world \<Rightarrow> exn + world" where
  "stage_input env fasta_file_obj input_path w =
     (case fasta_file_obj of
        Nameless \<Rightarrow> Inl (TypeError ''Invalid file object received.'')
      | TemporaryFileWrapper name \<Rightarrow>
          (case open_read env w name of
             Inl e \<Rightarrow> Inl e
           | Inr content \<Rightarrow>
               (case fs_fault env OpenWrite input_path of
                  Some e \<Rightarrow> Inl e
                | None \<Rightarrow>
                    Inr (logging INFO (''Input file saved to '' @ input_path)
                          (w\<lparr>files := (files w)(input_path \<mapsto> content)\<rparr>)))))"

text \<open>Line 104: \<^verbatim>\<open>e.stderr or e.stdout or f"Return code: {e.returncode}"\<close>.\<close>

definition error_detail :: "string \<Rightarrow> string option \<Rightarrow> int \<Rightarrow> string" where
  "error_detail err out returncode =
     (if err \<noteq> [] then err
      else case out of
             Some s \<Rightarrow> if s \<noteq> [] then s else ''Return code: '' @ str_int returncode
           | None \<Rightarrow> ''Return code: '' @ str_int returncode)"

text \<open>Lines 97-99, the handler of \<^verbatim>\<open>FileNotFoundError\<close>.\<close>

definition tool_not_found :: "string list \<Rightarrow> string \<Rightarrow> world \<Rightarrow> outputs \<times> world" where
  "tool_not_found command tool w =
     ((msg_command_not_found (hd command) tool, None, status_tool_not_found tool),
      logging ERROR (''Error: Command '' @ [CHR 0x27] @ hd command @ [CHR 0x27] @
                     '' not found. Is '' @ tool @ '' installed and in PATH?'') w)"

text \<open>
  Lines 100-105, the handler of \<^verbatim>\<open>CalledProcessError\<close>; \<open>out\<close> is \<^verbatim>\<open>e.stdout\<close>,
  which is \<^verbatim>\<open>None\<close> when the standard output was not captured.
\<close>

definition tool_failed ::
  "string \<Rightarrow> string \<Rightarrow> int \<Rightarrow> string option \<Rightarrow> string \<Rightarrow> world \<Rightarrow> outputs \<times> world" where
  "tool_failed tool task_id returncode out err w =
     ((msg_tool_failed tool (error_detail err out returncode), None, status_tool_failed tool),
      logging ERROR (''Stderr: '' @ err)
        (logging ERROR (''Error running '' @ tool @ '' for task '' @ task_id @
                        ''. Return code: '' @ str_int returncode) w))"

text \<open>Lines 106-108, the handler of every other \<^verbatim>\<open>Exception\<close>.\<close>

definition unexpected_error :: "exn \<Rightarrow> world \<Rightarrow> outputs \<times> world" where
  "unexpected_error e w =
     ((msg_unexpected_error (str_exn e), None, status_exception),
      logging ERROR (''An unexpected error occurred during alignment: '' @ str_exn e) w)"

definition handle_exn :: "string list \<Rightarrow> string \<Rightarrow> exn \<Rightarrow> world \<Rightarrow> outputs \<times> world" where
  "handle_exn command tool e w =
     (case e of
        FileNotFoundError m \<Rightarrow> tool_not_found command tool w
      | TypeError m \<Rightarrow> unexpected_error e w
      | Exception m \<Rightarrow> unexpected_error e w)"

text \<open>
  Lines 79-108, the second \<^verbatim>\<open>try\<close> with its handlers. \<open>(Some r, w)\<close>: a
  \<^verbatim>\<open>return\<close> with outputs \<open>r\<close> was reached; \<open>(None, w)\<close>: the statement was left
  normally. For MAFFT the output file is opened for writing before the program is run and
  receives the program's standard output, which is therefore not captured.
\<close>

definition run_tool ::
  "env \<Rightarrow> string \<Rightarrow> string \<Rightarrow> string \<Rightarrow> string \<Rightarrow> world \<Rightarrow> outputs option \<times> world" where
  "run_tool env tool task_id input_path output_path w =
     (if tool = ''MAFFT'' then
        (let command = [''mafft'', ''--quiet'', input_path] in
         case fs_fault env OpenWrite output_path of
           Some e \<Rightarrow> map_prod Some id (handle_exn command tool e w)
         | None \<Rightarrow>
             (let w1 = w\<lparr>files := (files w)(output_path \<mapsto> [])\<rparr>;
                  outcome = subprocess_run env command (files w1);
                  w2 = w1\<lparr>subprocess_calls := subprocess_calls w1 @ [(command, outcome)]\<rparr>
              in case outcome of
                   NotStarted e \<Rightarrow> map_prod Some id (handle_exn command tool e w2)
                 | Exited returncode out err fs \<Rightarrow>
                     (let w3 = w2\<lparr>files := fs(output_path \<mapsto> out)\<rparr> in
                      if returncode \<noteq> 0
                      then map_prod Some id (tool_failed tool task_id returncode None err w3)
                      else (None,
                            logging INFO (''MAFFT completed for task '' @ task_id @ ''.'') w3))))
      else if tool = ''MUSCLE'' then
        (let command = [''muscle'', ''-in'', input_path, ''-out'', output_path];
             w1 = logging WARNING
                    ''Assuming MUSCLE v3 syntax (-in/-out). Adjust if using MUSCLE v5.'' w;
             outcome = subprocess_run env command (files w1);
             w2 = w1\<lparr>subprocess_calls := subprocess_calls w1 @ [(command, outcome)]\<rparr>
         in case outcome of
              NotStarted e \<Rightarrow> map_prod Some id (handle_exn command tool e w2)
            | Exited returncode out err fs \<Rightarrow>
                (let w3 = w2\<lparr>files := fs\<rparr> in
                 if returncode \<noteq> 0
                 then map_prod Some id (tool_failed tool task_id returncode (Some out) err w3)
                 else (None,
                       logging INFO (''MUSCLE completed for task '' @ task_id @ ''. Stdout: '' @
                                     out @ '', Stderr: '' @ err) w3)))
      else (Some (msg_invalid_tool, None, status_invalid_tool), w))"

text \<open>
  Lines 36-127. The state argument is \<^verbatim>\<open>None\<close> or a dictionary; the dictionary is
  mutated in place, so the state the caller holds afterwards is returned with the outputs
  (a caller that passed \<^verbatim>\<open>None\<close> still holds \<^verbatim>\<open>None\<close>: the dictionary made at
  line 40 is local).
\<close>

definition run_alignment ::
  "env \<Rightarrow> file_obj option \<Rightarrow> string \<Rightarrow> session_state option \<Rightarrow> world \<Rightarrow>
   outputs \<times> session_state option \<times> world" where
  "run_alignment env fasta_file_obj tool current_session_state w =
     (let w1 = (case current_session_state of
                  None \<Rightarrow> logging ERROR ''Session state received as None in run_alignment!'' w
                | Some d \<Rightarrow> w);
          state = state_dict current_session_state;
          w2 = logging INFO (''Received state in run_alignment: '' @ repr_state env state) w1
      in case fasta_file_obj of
           None \<Rightarrow> ((msg_upload_fasta, None, status_no_file), current_session_state, w2)
         | Some f \<Rightarrow>
             (case resolve_session env state w2 of
                (session_id, state', w3) \<Rightarrow>
                  (let held = map_option (\<lambda>d. state') current_session_state;
                       task_id = uuid4 env (uuid_calls w3);
                       w4 = w3\<lparr>uuid_calls := Suc (uuid_calls w3)\<rparr>;
                       timestamp_str = strftime_now env;
                       input_filename = ''input_'' @ task_id @ ''_'' @ timestamp_str @ ''.fasta'';
                       output_filename = ''result_'' @ task_id @ ''_'' @ timestamp_str @ ''.aln'';
                       input_path = ''uploads/'' @ input_filename;
                       output_path = ''results/'' @ output_filename
                   in case stage_input env f input_path w4 of
                        Inl e \<Rightarrow>
                          ((msg_upload_error (str_exn e), None, status_save_failed), held,
                           logging ERROR (''Error saving uploaded file: '' @ str_exn e) w4)
                      | Inr w5 \<Rightarrow>
                          (case run_tool env tool task_id input_path output_path w5 of
                             (Some r, w6) \<Rightarrow> (r, held, w6)
                           | (None, w6) \<Rightarrow>
                               (case read_text env w6 output_path of
                                  Inl e \<Rightarrow>
                                    ((msg_read_failed, None, status_read_failed), held,
                                     logging ERROR (''Error reading result file '' @ output_path @
                                                    '': '' @ str_exn e) w6)
                                | Inr result_text \<Rightarrow>
                                    (let w7 = logging INFO (''Result file '' @ output_path @
                                                            '' read successfully.'') w6;
                                         w8 = save_to_db env session_id task_id tool input_path
                                                output_path (isoformat_now env) w7
                                     in ((result_text, Some output_path, status_done tool),
                                         held, w8)))))))"

subsection \<open>Querying the history: \<^verbatim>\<open>show_history\<close>\<close>

text \<open>\<^verbatim>\<open>str(v)\<close> of a state value.\<close>

fun str_pyval :: "pyval \<Rightarrow> string" where
  "str_pyval PyNone = ''None''"
| "str_pyval (PyStr s) = s"

text \<open>Lines 166-168: the header and one tab-separated line per row.\<close>

definition format_rows :: "(string \<times> string \<times> string \<times> string) list \<Rightarrow> string" where
  "format_rows rows =
     history_header @
     join [CHR 0x0A] (map (\<lambda>(ts, tool, inp, outp). join [CHR 0x09] [ts, tool, inp, outp]) rows)"

text \<open>Lines 131-168; the state the caller holds afterwards is returned with the text.\<close>

definition show_history ::
  "env \<Rightarrow> session_state option \<Rightarrow> world \<Rightarrow> string \<times> session_state option \<times> world" where
  "show_history env current_session_state w =
     (let w1 = (case current_session_state of
                  None \<Rightarrow> logging ERROR ''Session state received as None in show_history!'' w
                | Some d \<Rightarrow> w);
          state = state_dict current_session_state;
          w2 = logging INFO (''Received state in show_history: '' @ repr_state env state) w1;
          session_id = dict_get state ''session_id''
      in if \<not> truthy session_id then (msg_no_history, current_session_state, w2)
         else
           (let sid = str_pyval session_id;
                w3 = w2\<lparr>db_connects := Suc (db_connects w2)\<rparr>
            in case sqlite_fault env of
                 Some m \<Rightarrow>
                   (msg_cannot_load_history m, current_session_state,
                    logging ERROR (''Database error fetching history for session '' @ sid @
                                   '': '' @ m) w3)
               | None \<Rightarrow>
                   (let rows = select_history (history w3) sid in
                    if rows = [] then (msg_no_history_for (last6 sid), current_session_state, w3)
                    else (format_rows rows, current_session_state, w3))))"

subsection \<open>Recording a sequence of completed tasks\<close>

text \<open>
  Only line 121 writes to the table: one call of \<^verbatim>\<open>save_to_db\<close> for each completed
  task. \<open>save_tasks\<close> makes these calls for a list of completed tasks, oldest first, each
  given by the six arguments of \<^verbatim>\<open>save_to_db\<close>; \<open>row_values\<close> reads the same six
  values from a row.
\<close>

type_synonym task_values = "string \<times> string \<times> string \<times> string \<times> string \<times> string"

fun save_tasks :: "env \<Rightarrow> task_values list \<Rightarrow> world \<Rightarrow> world" where
  "save_tasks env [] w = w"
| "save_tasks env ((sid, tid, tool, inp, outp, ts) # tasks) w =
     save_tasks env tasks (save_to_db env sid tid tool inp outp ts w)"

definition row_values :: "history_row \<Rightarrow> task_values" where
  "row_values r =
     (col_session_id r, col_task_id r, col_tool r, col_input_file r, col_output_file r,
      col_timestamp r)"

subsection \<open>A concrete world and environment\<close>

text \<open>
  Used to evaluate the functions on concrete inputs: an upload of two sequences, no file
  under \<^verbatim>\<open>uploads/\<close> or \<^verbatim>\<open>results/\<close>, an empty table. In the environment nothing
  fails, the aligner prints an alignment and exits with 0, and every file decodes to
  itself.
\<close>

definition example_world :: world where
  "example_world =
     \<lparr>uuid_calls = 0,
      files = [''/tmp/gradio/seqs.fasta'' \<mapsto> ''>a'' @ [CHR 0x0A] @ ''ACGT'' @ [CHR 0x0A] @
                                             ''>b'' @ [CHR 0x0A] @ ''ACGA'' @ [CHR 0x0A]],
      subprocess_calls = [],
      db_connects = 0,
      history = [],
      log_records = []\<rparr>"

definition example_env :: env where
  "example_env =
     \<lparr>uuid4 = (\<lambda>n. if n = 0 then ''0123456789abcdef0123456789abcdef''
                   else ''fedcba9876543210fedcba9876543210''),
      strftime_now = ''20250101_120000'',
      isoformat_now = ''2025-01-01T12:00:03.250000'',
      fs_fault = (\<lambda>op path. None),
      subprocess_run = (\<lambda>command fs. Exited 0 (''>a'' @ [CHR 0x0A] @ ''ACGT'' @ [CHR 0x0A] @
                                                  ''>b'' @ [CHR 0x0A] @ ''ACGA'' @ [CHR 0x0A])
                                             [] fs),
      sqlite_fault = None,
      repr_state = (\<lambda>d. ''{...}''),
      decode_text = Inr\<rparr>"

definition example_upload :: "file_obj option" where
  "example_upload = Some (TemporaryFileWrapper ''/tmp/gradio/seqs.fasta'')"

text \<open>The same environment with a UUID generator whose first four draws differ.\<close>

definition fresh_uuid_env :: env where
  "fresh_uuid_env =
     example_env\<lparr>uuid4 := (\<lambda>n. if n = 0 then ''00000000000000000000000000000000''
                                else if n = 1 then ''11111111111111111111111111111111''
                                else if n = 2 then ''22222222222222222222222222222222''
                                else ''33333333333333333333333333333333'')\<rparr>"

section \<open>Properties\<close>

subsection \<open>What each step leaves unchanged\<close>

lemma logging_simps [simp]:
  "uuid_calls (logging l m w) = uuid_calls w"
  "files (logging l m w) = files w"
  "subprocess_calls (logging l m w) = subprocess_calls w"
  "db_connects (logging l m w) = db_connects w"
  "history (logging l m w) = history w"
  "log_records (logging l m w) = log_records w @ [(l, m)]"
  by (simp_all add: logging_def)

text \<open>The status of a completed task differs from every error status.\<close>

lemma status_done_distinct [simp]:
  "status_done tool \<noteq> status_no_file"
  "status_done tool \<noteq> status_save_failed"
  "status_done tool \<noteq> status_invalid_tool"
  "status_done tool \<noteq> status_tool_not_found tool'"
  "status_done tool \<noteq> status_tool_failed tool'"
  "status_done tool \<noteq> status_exception"
  "status_done tool \<noteq> status_read_failed"
  "status_no_file \<noteq> status_done tool"
  "status_save_failed \<noteq> status_done tool"
  "status_invalid_tool \<noteq> status_done tool"
  "status_tool_not_found tool' \<noteq> status_done tool"
  "status_tool_failed tool' \<noteq> status_done tool"
  "status_exception \<noteq> status_done tool"
  "status_read_failed \<noteq> status_done tool"
  by (simp_all add: status_done_def status_no_file_def status_save_failed_def
      status_invalid_tool_def status_tool_not_found_def status_tool_failed_def
      status_exception_def status_read_failed_def)

lemma open_read_cong: "files w = files w' \<Longrightarrow> open_read env w path = open_read env w' path"
  by (auto simp: open_read_def split: option.splits)

lemma open_read_Inr: "open_read env w path = Inr content \<Longrightarrow> files w path = Some content"
  by (auto simp: open_read_def split: option.splits)

lemma read_text_Inr: "read_text env w path = Inr content \<Longrightarrow> files w path \<noteq> None"
  by (auto simp: read_text_def dest: open_read_Inr split: sum.splits)

lemma resolve_session_frame:
  assumes "resolve_session env state w = (sid, state', w')"
  shows "files w' = files w" and "subprocess_calls w' = subprocess_calls w"
    and "db_connects w' = db_connects w" and "history w' = history w"
    and "uuid_calls w \<le> uuid_calls w'"
  using assms by (auto simp: resolve_session_def Let_def split: pyval.splits)

lemma stage_input_frame:
  assumes "stage_input env f p w = Inr w'"
  shows "uuid_calls w' = uuid_calls w" and "subprocess_calls w' = subprocess_calls w"
    and "db_connects w' = db_connects w" and "history w' = history w"
  using assms
  by (auto simp: stage_input_def split: file_obj.splits sum.splits option.splits)

lemma handle_exn_outputs:
  assumes "handle_exn command tool e w = ((text, art, status), w')"
  shows "art = None" and "status \<noteq> status_done tool"
    and "uuid_calls w' = uuid_calls w" and "files w' = files w"
    and "subprocess_calls w' = subprocess_calls w"
    and "db_connects w' = db_connects w" and "history w' = history w"
  using assms
  by (auto simp: handle_exn_def tool_not_found_def unexpected_error_def split: exn.splits)

lemma tool_failed_outputs:
  assumes "tool_failed tool task_id rc out err w = ((text, art, status), w')"
  shows "art = None" and "status \<noteq> status_done tool"
    and "uuid_calls w' = uuid_calls w" and "files w' = files w"
    and "subprocess_calls w' = subprocess_calls w"
    and "db_connects w' = db_connects w" and "history w' = history w"
  using assms by (auto simp: tool_failed_def)

lemma run_tool_frame:
  assumes "run_tool env tool task_id ip op w = (r, w')"
  shows "uuid_calls w' = uuid_calls w" and "db_connects w' = db_connects w"
    and "history w' = history w"
  using assms
  by (auto simp: run_tool_def Let_def handle_exn_def tool_not_found_def unexpected_error_def
      tool_failed_def split: if_splits option.splits proc_outcome.splits exn.splits)

lemma run_tool_returned:
  assumes "run_tool env tool task_id ip op w = (Some (text, art, status), w')"
  shows "art = None" and "status \<noteq> status_done tool"
  using assms
  by (auto simp: run_tool_def Let_def handle_exn_def tool_not_found_def unexpected_error_def
      tool_failed_def split: if_splits option.splits proc_outcome.splits exn.splits)

lemma save_to_db_frame [simp]:
  "uuid_calls (save_to_db env sid tid tool ip op ts w) = uuid_calls w"
  "files (save_to_db env sid tid tool ip op ts w) = files w"
  "subprocess_calls (save_to_db env sid tid tool ip op ts w) = subprocess_calls w"
  "db_connects (save_to_db env sid tid tool ip op ts w) = Suc (db_connects w)"
  by (auto simp: save_to_db_def Let_def insert_history_def split: option.splits sum.splits)

lemma save_to_db_history:
  "history (save_to_db env sid tid tool ip op ts w) = history w \<or>
   history (save_to_db env sid tid tool ip op ts w) =
     history w @ [\<lparr>col_id = next_row_id (history w), col_session_id = sid, col_task_id = tid,
                    col_tool = tool, col_input_file = ip, col_output_file = op,
                    col_timestamp = ts\<rparr>]"
  by (auto simp: save_to_db_def Let_def insert_history_def split: option.splits sum.splits)

text \<open>
  What session resolution returns depends on the world through the number of UUIDs drawn
  only.
\<close>

lemma resolve_session_uuid_calls:
  "uuid_calls w = uuid_calls v \<Longrightarrow>
   fst (resolve_session env state w) = fst (resolve_session env state v) \<and>
   fst (snd (resolve_session env state w)) = fst (snd (resolve_session env state v)) \<and>
   uuid_calls (snd (snd (resolve_session env state w))) =
     uuid_calls (snd (snd (resolve_session env state v)))"
  by (simp add: resolve_session_def Let_def split: pyval.splits)

lemma triple_collapse: "fst R = x \<Longrightarrow> R = (x, fst (snd R), snd (snd R))"
  by (cases R) auto

text \<open>The state the caller holds after a submission.\<close>

lemma run_alignment_state_None: "fst (snd (run_alignment env fobj tool None w)) = None"
  by (simp add: run_alignment_def Let_def split: option.splits prod.splits sum.splits)

lemma run_alignment_state_Some:
  "fst (snd (run_alignment env (Some f) tool (Some d) w)) =
     Some (fst (snd (resolve_session env d w)))"
  by (auto simp: run_alignment_def Let_def state_dict_def resolve_session_def
      split: option.splits prod.splits sum.splits pyval.splits)

text \<open>The text \<^verbatim>\<open>show_history\<close> returns for a state that carries a session identity.\<close>

lemma show_history_rows:
  assumes "dict_get (state_dict st) ''session_id'' = PyStr sid" and "sid \<noteq> []"
    and "sqlite_fault env = None"
  shows "fst (show_history env st w) =
           (if select_history (history w) sid = [] then msg_no_history_for (last6 sid)
            else format_rows (select_history (history w) sid))"
  using assms by (simp add: show_history_def Let_def split: option.splits)

subsection \<open>Rejection of a submission without a file\<close>

text \<open>
  Claim C4. When no file is supplied (\<^verbatim>\<open>fasta_file_obj is None\<close>),
  \<^verbatim>\<open>run_alignment\<close> returns at once the rejection with the status "Error: no file
  uploaded" and no artifact; no UUID is drawn (so neither a task identity nor a session
  identity is made), the session state is as it was, and the history table, the database,
  the files and the processes are untouched.
\<close>

theorem no_file_rejected:
  "\<exists>w'. run_alignment env None tool current_session_state w =
           ((msg_upload_fasta, None, status_no_file), current_session_state, w')
        \<and> uuid_calls w' = uuid_calls w \<and> history w' = history w
        \<and> db_connects w' = db_connects w \<and> files w' = files w
        \<and> subprocess_calls w' = subprocess_calls w"
  by (simp add: run_alignment_def Let_def split: option.splits)

subsection \<open>Session resolution\<close>

text \<open>
  Claim C5, as stated, fails for the session context \<^verbatim>\<open>None\<close>: lines 38-40 replace
  it by a dictionary that is local to the call, so the identity minted at line 51 is stored
  nowhere the caller can see. Two submissions with the context \<^verbatim>\<open>None\<close> leave the
  caller with \<^verbatim>\<open>None\<close> and are recorded under two different session identities.
\<close>

theorem none_state_mints_twice:
  "fst (snd (run_alignment fresh_uuid_env example_upload ''MAFFT'' None example_world)) = None \<and>
   map col_session_id
     (history (snd (snd (run_alignment fresh_uuid_env example_upload ''MAFFT'' None
        (snd (snd (run_alignment fresh_uuid_env example_upload ''MAFFT'' None
                     example_world))))))) =
     [''00000000-0000-0000-0000-000000000000'', ''22222222-2222-2222-2222-222222222222'']"
proof -
  have "map col_session_id
     (history (snd (snd (run_alignment fresh_uuid_env example_upload ''MAFFT'' None
        (snd (snd (run_alignment fresh_uuid_env example_upload ''MAFFT'' None
                     example_world))))))) =
     [''00000000-0000-0000-0000-000000000000'', ''22222222-2222-2222-2222-222222222222'']"
    by code_simp
  then show ?thesis
    by (simp add: run_alignment_state_None)
qed

text \<open>
  Claim C5, amended. For every session context that is a dictionary, session resolution
  (lines 48-55) is idempotent. If resolving a dictionary gives the identity \<open>sid\<close> and the
  dictionary \<open>state1\<close>, then a submission with a file on that dictionary leaves the caller
  with \<open>state1\<close>, and resolving \<open>state1\<close> again, at any later moment (any environment
  \<open>env'\<close> and world \<open>w'\<close>), gives \<open>sid\<close> again and leaves \<open>state1\<close> as it is, without
  drawing a UUID. An identity \<open>s\<close> that the dictionary already carries is returned
  unchanged and the dictionary is not modified; if it carries none, a fresh UUID is drawn
  and stored under \<^verbatim>\<open>'session_id'\<close>.
\<close>

theorem session_resolution_idempotent:
  assumes "resolve_session env state w = (sid, state1, w1)"
  shows "fst (snd (run_alignment env (Some f) tool (Some state) w)) = Some state1 \<and>
         fst (resolve_session env' state1 w') = sid \<and>
         fst (snd (resolve_session env' state1 w')) = state1 \<and>
         uuid_calls (snd (snd (resolve_session env' state1 w'))) = uuid_calls w' \<and>
         (dict_get state ''session_id'' = PyStr s \<longrightarrow>
            sid = s \<and> state1 = state \<and> uuid_calls w1 = uuid_calls w) \<and>
         (dict_get state ''session_id'' = PyNone \<longrightarrow>
            sid = uuid_str (uuid4 env (uuid_calls w)) \<and>
            state1 = state(''session_id'' \<mapsto> PyStr sid) \<and>
            uuid_calls w1 = Suc (uuid_calls w))"
proof -
  have "fst (snd (run_alignment env (Some f) tool (Some state) w)) = Some state1"
    using assms by (simp add: run_alignment_state_Some)
  moreover have "fst (resolve_session env' state1 w') = sid \<and>
         fst (snd (resolve_session env' state1 w')) = state1 \<and>
         uuid_calls (snd (snd (resolve_session env' state1 w'))) = uuid_calls w' \<and>
         (dict_get state ''session_id'' = PyStr s \<longrightarrow>
            sid = s \<and> state1 = state \<and> uuid_calls w1 = uuid_calls w) \<and>
         (dict_get state ''session_id'' = PyNone \<longrightarrow>
            sid = uuid_str (uuid4 env (uuid_calls w)) \<and>
            state1 = state(''session_id'' \<mapsto> PyStr sid) \<and>
            uuid_calls w1 = Suc (uuid_calls w))"
    using assms
    by (auto simp: resolve_session_def Let_def dict_get_def split: pyval.splits option.splits)
  ultimately show ?thesis by simp
qed

text \<open>
  The theorem at the empty state of a new client: an identity is minted, and a second
  resolution (after other UUIDs have been drawn) returns the same one.
\<close>

theorem session_resolution_idempotent_witness:
  "dict_get Map.empty ''session_id'' = PyNone \<and>
   fst (resolve_session example_env Map.empty example_world) =
     ''01234567-89ab-cdef-0123-456789abcdef'' \<and>
   fst (resolve_session example_env
          (fst (snd (resolve_session example_env Map.empty example_world)))
          (example_world\<lparr>uuid_calls := 7\<rparr>)) =
     ''01234567-89ab-cdef-0123-456789abcdef''"
proof -
  let ?R = "resolve_session example_env Map.empty example_world"
  have none: "dict_get Map.empty ''session_id'' = PyNone"
    by (simp add: dict_get_def)
  have first: "fst ?R = ''01234567-89ab-cdef-0123-456789abcdef''"
    by code_simp
  have "?R = (''01234567-89ab-cdef-0123-456789abcdef'', fst (snd ?R), snd (snd ?R))"
    using first by (rule triple_collapse)
  from session_resolution_idempotent [OF this, where env' = example_env
      and w' = "example_world\<lparr>uuid_calls := 7\<rparr>"]
  show ?thesis using none first by blast
qed

subsection \<open>History of a state without a session\<close>

text \<open>
  Claim C7. When the session state carries no session identity (the key is missing, or its
  value is \<^verbatim>\<open>None\<close> or empty, or the state itself is \<^verbatim>\<open>None\<close>),
  \<^verbatim>\<open>show_history\<close> returns the message "The current session has no history." without
  connecting to the database (\<open>db_connects\<close> and the table are as before), without drawing
  a UUID, and with the state as it was.
\<close>

theorem show_history_without_session:
  assumes "\<not> truthy (dict_get (state_dict current_session_state) ''session_id'')"
  shows "\<exists>w'. show_history env current_session_state w =
                 (msg_no_history, current_session_state, w')
             \<and> db_connects w' = db_connects w \<and> history w' = history w
             \<and> uuid_calls w' = uuid_calls w"
  using assms by (simp add: show_history_def Let_def split: option.splits)

theorem show_history_without_session_witness:
  "\<not> truthy (dict_get (state_dict (Some Map.empty)) ''session_id'') \<and>
   (\<exists>w'. show_history example_env (Some Map.empty) example_world =
            (msg_no_history, Some Map.empty, w')
        \<and> db_connects w' = db_connects example_world \<and> history w' = history example_world
        \<and> uuid_calls w' = uuid_calls example_world)"
proof -
  have h: "\<not> truthy (dict_get (state_dict (Some Map.empty)) ''session_id'')"
    by (simp add: dict_get_def state_dict_def)
  from show_history_without_session [OF h, of example_env example_world] h show ?thesis
    by blast
qed

subsection \<open>The artifact reference\<close>

text \<open>
  Claim C9. The artifact reference returned by \<^verbatim>\<open>run_alignment\<close> is not
  \<^verbatim>\<open>None\<close> if and only if the task is completed, that is, the returned status is
  "Alignment finished (tool)." and not one of the error statuses. Then the reference is the
  output path \<^verbatim>\<open>results/result_{task_id}_{timestamp_str}.aln\<close>, where the task identity
  is the UUID drawn after session resolution, and a file exists at that path.
\<close>

theorem artifact_iff_completed:
  assumes "run_alignment env fobj tool st w = ((text, art, status), st', w')"
  shows "(art \<noteq> None \<longleftrightarrow> status = status_done tool) \<and>
         (status = status_done tool \<longrightarrow>
            art = Some (''results/result_'' @
                        uuid4 env (uuid_calls (snd (snd (resolve_session env (state_dict st) w)))) @
                        ''_'' @ strftime_now env @ ''.aln'') \<and>
            (\<exists>p. art = Some p \<and> files w' p \<noteq> None))"
proof (cases fobj)
  case None
  with assms show ?thesis
    by (auto simp: run_alignment_def Let_def)
next
  case (Some f)
  let ?w2 = "logging INFO (''Received state in run_alignment: '' @ repr_state env (state_dict st))
              (case st of
                 None \<Rightarrow> logging ERROR ''Session state received as None in run_alignment!'' w
               | Some d \<Rightarrow> w)"
  obtain sid state' w3 where rs: "resolve_session env (state_dict st) ?w2 = (sid, state', w3)"
    by (metis prod_cases3)
  have "uuid_calls ?w2 = uuid_calls w" by (simp split: option.splits)
  from resolve_session_uuid_calls [OF this, of env "state_dict st"] rs
  have u: "uuid_calls (snd (snd (resolve_session env (state_dict st) w))) = uuid_calls w3"
    by simp
  from assms Some rs u show ?thesis
    by (auto simp: run_alignment_def Let_def
        split: sum.splits prod.splits option.splits
        dest: run_tool_returned read_text_Inr)
qed

text \<open>The theorem at a completed MAFFT run of the example.\<close>

theorem artifact_iff_completed_witness:
  "fst (run_alignment example_env example_upload ''MAFFT'' (Some Map.empty) example_world) =
     (''>a'' @ [CHR 0x0A] @ ''ACGT'' @ [CHR 0x0A] @ ''>b'' @ [CHR 0x0A] @ ''ACGA'' @ [CHR 0x0A],
      Some ''results/result_fedcba9876543210fedcba9876543210_20250101_120000.aln'',
      status_done ''MAFFT'') \<and>
   files (snd (snd (run_alignment example_env example_upload ''MAFFT'' (Some Map.empty)
                      example_world)))
     ''results/result_fedcba9876543210fedcba9876543210_20250101_120000.aln'' \<noteq> None"
proof -
  let ?R = "run_alignment example_env example_upload ''MAFFT'' (Some Map.empty) example_world"
  let ?out = "(''>a'' @ [CHR 0x0A] @ ''ACGT'' @ [CHR 0x0A] @ ''>b'' @ [CHR 0x0A] @ ''ACGA'' @
               [CHR 0x0A],
               Some ''results/result_fedcba9876543210fedcba9876543210_20250101_120000.aln'',
               status_done ''MAFFT'')"
  have out: "fst ?R = ?out"
    by code_simp
  then have "?R = (?out, fst (snd ?R), snd (snd ?R))"
    by (rule triple_collapse)
  from artifact_iff_completed [OF this] out show ?thesis
    by simp
qed

subsection \<open>The session state is only completed, never changed\<close>

text \<open>
  Claim C10. Neither operation changes a session identity that the state carries.
  \<^verbatim>\<open>run_alignment\<close> leaves the dictionary exactly as it was, except when a file was
  supplied and \<^verbatim>\<open>.get('session_id')\<close> is \<^verbatim>\<open>None\<close>: then the only change is that
  the key \<^verbatim>\<open>'session_id'\<close> is set to the freshly drawn identity, every other key
  keeping its value. A caller that passed \<^verbatim>\<open>None\<close> as state still holds
  \<^verbatim>\<open>None\<close>. \<^verbatim>\<open>show_history\<close> never changes the state.
\<close>

theorem session_state_frame:
  "fst (snd (run_alignment env fobj tool (Some d) w)) =
     (if fobj \<noteq> None \<and> dict_get d ''session_id'' = PyNone
      then Some (d(''session_id'' \<mapsto> PyStr (uuid_str (uuid4 env (uuid_calls w)))))
      else Some d) \<and>
   fst (snd (run_alignment env fobj tool None w)) = None \<and>
   fst (snd (show_history env st w)) = st"
proof -
  have "fst (snd (show_history env st w)) = st"
    by (simp add: show_history_def Let_def split: option.splits)
  moreover have "fst (snd (run_alignment env fobj tool None w)) = None"
    by (simp add: run_alignment_def Let_def split: option.splits prod.splits sum.splits)
  moreover have "fst (snd (run_alignment env fobj tool (Some d) w)) =
     (if fobj \<noteq> None \<and> dict_get d ''session_id'' = PyNone
      then Some (d(''session_id'' \<mapsto> PyStr (uuid_str (uuid4 env (uuid_calls w)))))
      else Some d)"
    by (auto simp: run_alignment_def Let_def state_dict_def resolve_session_def
        split: option.splits prod.splits sum.splits pyval.splits)
  ultimately show ?thesis by simp
qed

subsection \<open>The paths through \<^verbatim>\<open>run_alignment\<close>\<close>

text \<open>
  A submission with a file ends in one of five ways: staging raised, the \<^verbatim>\<open>try\<close>
  around the tool returned (invalid tool, or one of the three handlers), reading the output
  raised, or the task was completed and \<^verbatim>\<open>save_to_db\<close> was called. Before staging,
  only the log and the number of UUIDs drawn have changed.
\<close>

lemma run_alignment_paths:
  assumes run: "run_alignment env (Some f) tool st w = (r, st', w')"
  defines "sid \<equiv> fst (resolve_session env (state_dict st) w)"
    and "tid \<equiv> uuid4 env (uuid_calls (snd (snd (resolve_session env (state_dict st) w))))"
  defines "ip \<equiv> ''uploads/'' @ ''input_'' @ tid @ ''_'' @ strftime_now env @ ''.fasta''"
    and "op \<equiv> ''results/'' @ ''result_'' @ tid @ ''_'' @ strftime_now env @ ''.aln''"
  shows "\<exists>w4. uuid_calls w4 = Suc (uuid_calls (snd (snd (resolve_session env (state_dict st) w))))
            \<and> files w4 = files w \<and> history w4 = history w \<and> db_connects w4 = db_connects w
            \<and> subprocess_calls w4 = subprocess_calls w \<and>
     ((\<exists>e. stage_input env f ip w4 = Inl e
           \<and> r = (msg_upload_error (str_exn e), None, status_save_failed)
           \<and> w' = logging ERROR (''Error saving uploaded file: '' @ str_exn e) w4)
      \<or> (\<exists>w5. stage_input env f ip w4 = Inr w5 \<and>
            ((\<exists>out. run_tool env tool tid ip op w5 = (Some out, w') \<and> r = out)
             \<or> (\<exists>w6. run_tool env tool tid ip op w5 = (None, w6) \<and>
                   ((\<exists>e. read_text env w6 op = Inl e
                         \<and> r = (msg_read_failed, None, status_read_failed)
                         \<and> w' = logging ERROR (''Error reading result file '' @ op @ '': '' @
                                                 str_exn e) w6)
                    \<or> (\<exists>text. read_text env w6 op = Inr text
                          \<and> r = (text, Some op, status_done tool)
                          \<and> w' = save_to_db env sid tid tool ip op (isoformat_now env)
                                   (logging INFO (''Result file '' @ op @
                                                  '' read successfully.'') w6)))))))"
proof -
  let ?w2 = "logging INFO (''Received state in run_alignment: '' @ repr_state env (state_dict st))
              (case st of
                 None \<Rightarrow> logging ERROR ''Session state received as None in run_alignment!'' w
               | Some d \<Rightarrow> w)"
  obtain sid' state' w3 where rs: "resolve_session env (state_dict st) ?w2 = (sid', state', w3)"
    by (metis prod_cases3)
  have w2: "uuid_calls ?w2 = uuid_calls w" "history ?w2 = history w"
    "db_connects ?w2 = db_connects w" "files ?w2 = files w"
    "subprocess_calls ?w2 = subprocess_calls w"
    by (simp_all split: option.splits)
  from resolve_session_uuid_calls [OF w2(1), of env "state_dict st"] rs
  have u: "uuid_calls (snd (snd (resolve_session env (state_dict st) w))) = uuid_calls w3"
    and s: "sid = sid'"
    by (simp_all add: sid_def)
  have tid: "tid = uuid4 env (uuid_calls w3)"
    by (simp add: tid_def u)
  from resolve_session_frame [OF rs] w2
  have w3: "history w3 = history w" "db_connects w3 = db_connects w" "files w3 = files w"
    "subprocess_calls w3 = subprocess_calls w"
    by simp_all
  let ?w4 = "w3\<lparr>uuid_calls := Suc (uuid_calls w3)\<rparr>"
  let ?held = "map_option (\<lambda>d. state') st"
  have unfolded: "run_alignment env (Some f) tool st w =
    (case stage_input env f ip ?w4 of
       Inl e \<Rightarrow> ((msg_upload_error (str_exn e), None, status_save_failed), ?held,
                  logging ERROR (''Error saving uploaded file: '' @ str_exn e) ?w4)
     | Inr w5 \<Rightarrow>
         (case run_tool env tool tid ip op w5 of
            (Some r, w6) \<Rightarrow> (r, ?held, w6)
          | (None, w6) \<Rightarrow>
              (case read_text env w6 op of
                 Inl e \<Rightarrow> ((msg_read_failed, None, status_read_failed), ?held,
                            logging ERROR (''Error reading result file '' @ op @ '': '' @
                                           str_exn e) w6)
               | Inr result_text \<Rightarrow>
                   ((result_text, Some op, status_done tool), ?held,
                    save_to_db env sid tid tool ip op (isoformat_now env)
                      (logging INFO (''Result file '' @ op @ '' read successfully.'') w6)))))"
    by (simp only: run_alignment_def Let_def rs tid s ip_def op_def option.case prod.case)
  have frame4: "uuid_calls ?w4 = Suc (uuid_calls (snd (snd (resolve_session env (state_dict st) w))))"
    "files ?w4 = files w" "history ?w4 = history w" "db_connects ?w4 = db_connects w"
    "subprocess_calls ?w4 = subprocess_calls w"
    by (simp_all add: u w3)
  show ?thesis
  proof (cases "stage_input env f ip ?w4")
    case (Inl e)
    with run unfolded have "r = (msg_upload_error (str_exn e), None, status_save_failed)"
      "w' = logging ERROR (''Error saving uploaded file: '' @ str_exn e) ?w4"
      by simp_all
    with Inl frame4 show ?thesis by blast
  next
    case (Inr w5)
    note staged = Inr
    obtain ro w6 where rt: "run_tool env tool tid ip op w5 = (ro, w6)"
      by (cases "run_tool env tool tid ip op w5")
    show ?thesis
    proof (cases ro)
      case (Some out)
      with run unfolded staged rt have "r = out" "w' = w6" by simp_all
      with staged rt Some frame4 show ?thesis by blast
    next
      case None
      show ?thesis
      proof (cases "read_text env w6 op")
        case (Inl e)
        with run unfolded staged rt None
        have "r = (msg_read_failed, None, status_read_failed)"
          "w' = logging ERROR (''Error reading result file '' @ op @ '': '' @ str_exn e) w6"
          by simp_all
        with staged rt None Inl frame4 show ?thesis by blast
      next
        case (Inr content)
        with run unfolded staged rt None
        have "r = (content, Some op, status_done tool)"
          "w' = save_to_db env sid tid tool ip op (isoformat_now env)
                  (logging INFO (''Result file '' @ op @ '' read successfully.'') w6)"
          by simp_all
        with staged rt None Inr frame4 show ?thesis by blast
      qed
    qed
  qed
qed

lemma save_to_db_history_eq:
  "history (save_to_db env sid tid tool ip op ts w) =
     (if sqlite_fault env = None \<and> tid \<notin> set (map col_task_id (history w))
      then history w @ [\<lparr>col_id = next_row_id (history w), col_session_id = sid,
                          col_task_id = tid, col_tool = tool, col_input_file = ip,
                          col_output_file = op, col_timestamp = ts\<rparr>]
      else history w)"
  by (auto simp: save_to_db_def Let_def insert_history_def split: option.splits sum.splits)

subsection \<open>Which submissions are recorded\<close>

text \<open>
  Claim C1, as stated, fails: a completed task is not always recorded. With the example
  upload and MAFFT, in an environment whose database raises \<^verbatim>\<open>sqlite3.Error\<close>
  ("database is locked"), the task is completed and the table is as it was: the handler of
  line 31 logs the error and nothing is appended.
\<close>

theorem completed_without_record:
  "snd (snd (fst (run_alignment (example_env\<lparr>sqlite_fault := Some ''database is locked''\<rparr>)
                    example_upload ''MAFFT'' (Some Map.empty) example_world))) =
     status_done ''MAFFT'' \<and>
   history (snd (snd (run_alignment (example_env\<lparr>sqlite_fault := Some ''database is locked''\<rparr>)
                        example_upload ''MAFFT'' (Some Map.empty) example_world))) =
     history example_world"
  by code_simp

text \<open>
  Claim C1, amended. A submission that does not end with the status of a completed task
  (no file, staging failure, invalid tool, tool not found, non-zero exit, unexpected
  exception, output-read failure) returns without calling \<^verbatim>\<open>save_to_db\<close>: no
  database connection is made and the table is unchanged. A completed task calls
  \<^verbatim>\<open>save_to_db\<close> exactly once; this appends exactly one row, for the resolved
  session and with the task identity, tool, the two artifact paths and the timestamp,
  unless the insert raises a database error (a fault of the database, or a task identity
  that is already in the table), in which case the table is unchanged.
\<close>

theorem history_appended_when_completed:
  assumes run: "run_alignment env fobj tool st w = ((res, art, status), st', w')"
  shows "(status \<noteq> status_done tool \<longrightarrow>
            history w' = history w \<and> db_connects w' = db_connects w) \<and>
         (status = status_done tool \<longrightarrow>
            db_connects w' = Suc (db_connects w) \<and>
            history w' =
              (let sid = fst (resolve_session env (state_dict st) w);
                   tid = uuid4 env (uuid_calls (snd (snd (resolve_session env (state_dict st) w))))
               in if sqlite_fault env = None \<and> tid \<notin> set (map col_task_id (history w))
                  then history w @
                       [\<lparr>col_id = next_row_id (history w), col_session_id = sid,
                         col_task_id = tid, col_tool = tool,
                         col_input_file =
                           ''uploads/input_'' @ tid @ ''_'' @ strftime_now env @ ''.fasta'',
                         col_output_file =
                           ''results/result_'' @ tid @ ''_'' @ strftime_now env @ ''.aln'',
                         col_timestamp = isoformat_now env\<rparr>]
                  else history w))"
proof (cases fobj)
  case None
  with run show ?thesis
    by (auto simp: run_alignment_def Let_def split: option.splits)
next
  case (Some f)
  with run have run': "run_alignment env (Some f) tool st w = ((res, art, status), st', w')"
    by simp
  from run_alignment_paths [OF run'] show ?thesis
  proof (elim exE conjE disjE, goal_cases stage ret rd fin)
    case (stage w4 e)
    then show ?case by simp
  next
    case (ret w4 w5 out)
    from stage_input_frame [OF ret(6)] ret(3,4)
    have "history w5 = history w" "db_connects w5 = db_connects w" by simp_all
    moreover from ret(7,8) run_tool_returned [of env tool _ _ _ w5 res art status w']
    have "status \<noteq> status_done tool" by simp
    ultimately show ?case using run_tool_frame [OF ret(7)] by simp
  next
    case (rd w4 w5 w6 e)
    from stage_input_frame [OF rd(6)] rd(3,4)
    have "history w5 = history w" "db_connects w5 = db_connects w" by simp_all
    with run_tool_frame [OF rd(7)] rd(9,10)
    show ?case by simp
  next
    case (fin w4 w5 w6 content)
    from stage_input_frame [OF fin(6)] fin(3,4)
    have "history w5 = history w" "db_connects w5 = db_connects w" by simp_all
    with run_tool_frame [OF fin(7)]
    have "history w6 = history w" "db_connects w6 = db_connects w" by simp_all
    with fin(9,10) show ?case
      by (simp add: save_to_db_history_eq Let_def)
  qed
qed

text \<open>The theorem at a completed MAFFT run of the example: one row is appended.\<close>

theorem history_appended_when_completed_witness:
  "fst (run_alignment example_env example_upload ''MAFFT'' (Some Map.empty) example_world) =
     (''>a'' @ [CHR 0x0A] @ ''ACGT'' @ [CHR 0x0A] @ ''>b'' @ [CHR 0x0A] @ ''ACGA'' @ [CHR 0x0A],
      Some ''results/result_fedcba9876543210fedcba9876543210_20250101_120000.aln'',
      status_done ''MAFFT'') \<and>
   history (snd (snd (run_alignment example_env example_upload ''MAFFT'' (Some Map.empty)
                        example_world))) =
     [\<lparr>col_id = 1, col_session_id = ''01234567-89ab-cdef-0123-456789abcdef'',
       col_task_id = ''fedcba9876543210fedcba9876543210'', col_tool = ''MAFFT'',
       col_input_file =
         ''uploads/input_fedcba9876543210fedcba9876543210_20250101_120000.fasta'',
       col_output_file =
         ''results/result_fedcba9876543210fedcba9876543210_20250101_120000.aln'',
       col_timestamp = ''2025-01-01T12:00:03.250000''\<rparr>]"
proof -
  let ?R = "run_alignment example_env example_upload ''MAFFT'' (Some Map.empty) example_world"
  let ?out = "(''>a'' @ [CHR 0x0A] @ ''ACGT'' @ [CHR 0x0A] @ ''>b'' @ [CHR 0x0A] @ ''ACGA'' @
               [CHR 0x0A],
               Some ''results/result_fedcba9876543210fedcba9876543210_20250101_120000.aln'',
               status_done ''MAFFT'')"
  have out: "fst ?R = ?out"
    by code_simp
  then have "?R = (?out, fst (snd ?R), snd (snd ?R))"
    by (rule triple_collapse)
  from history_appended_when_completed [OF this]
  have "history (snd (snd ?R)) =
          (let sid = fst (resolve_session example_env (state_dict (Some Map.empty)) example_world);
               tid = uuid4 example_env (uuid_calls (snd (snd (resolve_session example_env
                       (state_dict (Some Map.empty)) example_world))))
           in if sqlite_fault example_env = None \<and>
                 tid \<notin> set (map col_task_id (history example_world))
              then history example_world @
                   [\<lparr>col_id = next_row_id (history example_world), col_session_id = sid,
                     col_task_id = tid, col_tool = ''MAFFT'',
                     col_input_file =
                       ''uploads/input_'' @ tid @ ''_'' @ strftime_now example_env @ ''.fasta'',
                     col_output_file =
                       ''results/result_'' @ tid @ ''_'' @ strftime_now example_env @ ''.aln'',
                     col_timestamp = isoformat_now example_env\<rparr>]
              else history example_world)"
    by simp
  also have "\<dots> =
     [\<lparr>col_id = 1, col_session_id = ''01234567-89ab-cdef-0123-456789abcdef'',
       col_task_id = ''fedcba9876543210fedcba9876543210'', col_tool = ''MAFFT'',
       col_input_file =
         ''uploads/input_fedcba9876543210fedcba9876543210_20250101_120000.fasta'',
       col_output_file =
         ''results/result_fedcba9876543210fedcba9876543210_20250101_120000.aln'',
       col_timestamp = ''2025-01-01T12:00:03.250000''\<rparr>]"
    by code_simp
  finally show ?thesis using out by simp
qed

subsection \<open>An unsupported tool\<close>

lemma run_tool_invalid:
  assumes "tool \<noteq> ''MAFFT''" "tool \<noteq> ''MUSCLE''"
  shows "run_tool env tool tid ip op w = (Some (msg_invalid_tool, None, status_invalid_tool), w)"
  using assms by (simp add: run_tool_def)

lemma stage_input_files:
  assumes "stage_input env f ip w = Inr w'"
  shows "\<exists>content. files w' ip = Some content"
  using assms
  by (auto simp: stage_input_def split: file_obj.splits sum.splits option.splits)

text \<open>
  Claim C2, as stated, fails: the tool is examined only inside the second \<^verbatim>\<open>try\<close>
  (the \<^verbatim>\<open>else\<close> of line 94), after the task identity has been drawn (line 57) and
  the upload has been staged (lines 65-71). With the example upload and the tool
  \<^verbatim>\<open>CLUSTALW\<close> the submission is rejected as an invalid tool, yet the input artifact
  has been written under \<^verbatim>\<open>uploads/\<close> and two UUIDs (session and task) have been
  drawn.
\<close>

theorem invalid_tool_still_staged:
  "files (snd (snd (run_alignment example_env example_upload ''CLUSTALW'' (Some Map.empty)
                      example_world)))
     ''uploads/input_fedcba9876543210fedcba9876543210_20250101_120000.fasta'' =
     Some (''>a'' @ [CHR 0x0A] @ ''ACGT'' @ [CHR 0x0A] @ ''>b'' @ [CHR 0x0A] @ ''ACGA'' @ [CHR 0x0A]) \<and>
   files example_world
     ''uploads/input_fedcba9876543210fedcba9876543210_20250101_120000.fasta'' = None \<and>
   uuid_calls (snd (snd (run_alignment example_env example_upload ''CLUSTALW'' (Some Map.empty)
                      example_world))) = 2 \<and>
   uuid_calls example_world = 0 \<and>
   snd (snd (fst (run_alignment example_env example_upload ''CLUSTALW'' (Some Map.empty)
                      example_world))) = status_invalid_tool"
  by code_simp

text \<open>
  Claim C2, amended. For every submission with a file whose tool is neither MAFFT nor
  MUSCLE, no external process is started, no database connection is made and no history
  record is written, and the artifact reference is \<^verbatim>\<open>None\<close>; but a task identity has
  been allocated, and either the upload has been staged (the input artifact exists) and
  the outputs are the invalid-tool rejection, or staging itself failed.
\<close>

theorem invalid_tool_rejected_after_staging:
  assumes tool: "tool \<noteq> ''MAFFT''" "tool \<noteq> ''MUSCLE''"
    and run: "run_alignment env (Some f) tool st w = ((res, art, status), st', w')"
  shows "subprocess_calls w' = subprocess_calls w \<and> history w' = history w \<and>
         db_connects w' = db_connects w \<and> art = None \<and>
         uuid_calls w < uuid_calls w' \<and>
         ((res, status) = (msg_invalid_tool, status_invalid_tool) \<and>
            (\<exists>content. files w'
               (''uploads/input_'' @
                uuid4 env (uuid_calls (snd (snd (resolve_session env (state_dict st) w)))) @
                ''_'' @ strftime_now env @ ''.fasta'') = Some content)
          \<or> status = status_save_failed)"
proof -
  have le: "uuid_calls w \<le> uuid_calls (snd (snd (resolve_session env (state_dict st) w)))"
    using resolve_session_frame(5) [of env "state_dict st" w] by (metis prod.collapse)
  from run_alignment_paths [OF run] show ?thesis
  proof (elim exE conjE disjE, goal_cases stage ret rd fin)
    case (stage w4 e)
    with le show ?case by simp
  next
    case (ret w4 w5 out)
    from ret(7) tool have w5: "w' = w5" and out: "out = (msg_invalid_tool, None, status_invalid_tool)"
      by (simp_all add: run_tool_invalid)
    from stage_input_files [OF ret(6)] stage_input_frame [OF ret(6)] ret(1-5,8) w5 out le
    show ?case by simp
  next
    case (rd w4 w5 w6 e)
    from rd(7) tool show ?case by (simp add: run_tool_invalid)
  next
    case (fin w4 w5 w6 content)
    from fin(7) tool show ?case by (simp add: run_tool_invalid)
  qed
qed

theorem invalid_tool_rejected_after_staging_witness:
  "''CLUSTALW'' \<noteq> ''MAFFT'' \<and> ''CLUSTALW'' \<noteq> ''MUSCLE'' \<and>
   fst (run_alignment example_env (Some (TemporaryFileWrapper ''/tmp/gradio/seqs.fasta''))
          ''CLUSTALW'' (Some Map.empty) example_world) =
     (msg_invalid_tool, None, status_invalid_tool) \<and>
   subprocess_calls (snd (snd (run_alignment example_env
       (Some (TemporaryFileWrapper ''/tmp/gradio/seqs.fasta'')) ''CLUSTALW'' (Some Map.empty)
       example_world))) = subprocess_calls example_world \<and>
   history (snd (snd (run_alignment example_env
       (Some (TemporaryFileWrapper ''/tmp/gradio/seqs.fasta'')) ''CLUSTALW'' (Some Map.empty)
       example_world))) = history example_world"
proof -
  let ?R = "run_alignment example_env (Some (TemporaryFileWrapper ''/tmp/gradio/seqs.fasta''))
              ''CLUSTALW'' (Some Map.empty) example_world"
  have t: "''CLUSTALW'' \<noteq> ''MAFFT''" "''CLUSTALW'' \<noteq> ''MUSCLE''"
    by simp_all
  have out: "fst ?R = (msg_invalid_tool, None, status_invalid_tool)"
    by code_simp
  then have "?R = ((msg_invalid_tool, None, status_invalid_tool), fst (snd ?R), snd (snd ?R))"
    by (rule triple_collapse)
  from invalid_tool_rejected_after_staging [OF t this] t out show ?thesis
    by blast
qed

subsection \<open>A tool that exits with a failure\<close>

lemma run_tool_nonzero_exit:
  assumes "run_tool env tool tid ip op w = (ro, w')"
    and "subprocess_calls w' = subprocess_calls w @ [(command, Exited returncode out err fs)]"
    and "returncode \<noteq> 0"
  shows "ro = Some (msg_tool_failed tool
                     (error_detail err (if tool = ''MAFFT'' then None else Some out) returncode),
                    None, status_tool_failed tool)"
  using assms
  by (auto simp: run_tool_def Let_def handle_exn_def tool_not_found_def unexpected_error_def
      tool_failed_def split: if_splits option.splits proc_outcome.splits exn.splits)

lemma run_tool_subprocess_calls:
  assumes "run_tool env tool tid ip op w = (ro, w')"
  shows "\<exists>cs. subprocess_calls w' = subprocess_calls w @ cs"
  using assms
  by (auto simp: run_tool_def Let_def handle_exn_def tool_not_found_def unexpected_error_def
      tool_failed_def split: if_splits option.splits proc_outcome.splits exn.splits)

text \<open>
  Claim C8, as stated, fails for MAFFT: its standard output is redirected into the output
  file (line 85, \<^verbatim>\<open>stdout=f_out\<close>), so \<^verbatim>\<open>e.stdout\<close> is \<^verbatim>\<open>None\<close> and line 104
  never falls back to it. When MAFFT exits with status 3, an empty standard error and a
  usage message on its standard output, the detail is \<^verbatim>\<open>Return code: 3\<close>, not the
  standard output.
\<close>

theorem mafft_stdout_not_reported:
  "subprocess_calls (snd (snd (run_alignment
       (example_env\<lparr>subprocess_run := (\<lambda>command fs. Exited 3 ''Usage: mafft input'' [] fs)\<rparr>)
       example_upload ''MAFFT'' (Some Map.empty) example_world))) =
     subprocess_calls example_world @
     [([''mafft'', ''--quiet'',
        ''uploads/input_fedcba9876543210fedcba9876543210_20250101_120000.fasta''],
       Exited 3 ''Usage: mafft input'' []
         ((files example_world)
            (''uploads/input_fedcba9876543210fedcba9876543210_20250101_120000.fasta'' \<mapsto>
               ''>a'' @ [CHR 0x0A] @ ''ACGT'' @ [CHR 0x0A] @ ''>b'' @ [CHR 0x0A] @ ''ACGA'' @
               [CHR 0x0A],
             ''results/result_fedcba9876543210fedcba9876543210_20250101_120000.aln'' \<mapsto> [])))] \<and>
   fst (run_alignment
       (example_env\<lparr>subprocess_run := (\<lambda>command fs. Exited 3 ''Usage: mafft input'' [] fs)\<rparr>)
       example_upload ''MAFFT'' (Some Map.empty) example_world) =
     (msg_tool_failed ''MAFFT'' ''Return code: 3'', None, status_tool_failed ''MAFFT'') \<and>
   msg_tool_failed ''MAFFT'' ''Return code: 3'' \<noteq> msg_tool_failed ''MAFFT'' ''Usage: mafft input''"
proof -
  let ?env = "example_env\<lparr>subprocess_run :=
                (\<lambda>command fs. Exited 3 ''Usage: mafft input'' [] fs)\<rparr>"
  let ?R = "run_alignment ?env example_upload ''MAFFT'' (Some Map.empty) example_world"
  have "subprocess_calls (snd (snd ?R)) =
     subprocess_calls example_world @
     [([''mafft'', ''--quiet'',
        ''uploads/input_fedcba9876543210fedcba9876543210_20250101_120000.fasta''],
       Exited 3 ''Usage: mafft input'' []
         ((files example_world)
            (''uploads/input_fedcba9876543210fedcba9876543210_20250101_120000.fasta'' \<mapsto>
               ''>a'' @ [CHR 0x0A] @ ''ACGT'' @ [CHR 0x0A] @ ''>b'' @ [CHR 0x0A] @ ''ACGA'' @
               [CHR 0x0A],
             ''results/result_fedcba9876543210fedcba9876543210_20250101_120000.aln'' \<mapsto> [])))]"
    by (simp add: run_alignment_def example_env_def example_upload_def example_world_def Let_def
      state_dict_def resolve_session_def dict_get_def stage_input_def open_read_def run_tool_def
      logging_def tool_failed_def)
  moreover have "fst ?R =
      (msg_tool_failed ''MAFFT'' ''Return code: 3'', None, status_tool_failed ''MAFFT'')"
    by code_simp
  moreover have "msg_tool_failed ''MAFFT'' ''Return code: 3'' \<noteq>
                 msg_tool_failed ''MAFFT'' ''Usage: mafft input''"
    by (simp add: msg_tool_failed_def)
  ultimately show ?thesis by blast
qed

text \<open>
  Claim C8, amended: the fallback to the standard output exists only where the standard
  output is captured, that is, for MUSCLE.
  If during a submission the external tool was run and exited with a non-zero
  status (the call of \<^verbatim>\<open>subprocess.run\<close> recorded for this submission ended with
  return code \<open>returncode \<noteq> 0\<close>, standard output \<open>out\<close> and standard error \<open>err\<close>),
  the task fails: the artifact is \<^verbatim>\<open>None\<close>, the status is "Error: tool run failed",
  and the result text is "tool failed while running. Error message:" followed by the
  detail. The detail is the captured standard error, verbatim, when there is any; otherwise
  the captured standard output when there is any (MUSCLE; the standard output of MAFFT goes
  to the output file and is not captured), otherwise \<^verbatim>\<open>Return code: n\<close>. No history
  record is written and no database connection is made.
\<close>

theorem tool_failure_reported:
  assumes run: "run_alignment env fobj tool st w = ((res, art, status), st', w')"
    and call: "subprocess_calls w' =
                 subprocess_calls w @ [(command, Exited returncode out err fs)]"
    and rc: "returncode \<noteq> 0"
  shows "res = msg_tool_failed tool
                 (if err \<noteq> [] then err
                  else if tool \<noteq> ''MAFFT'' \<and> out \<noteq> [] then out
                  else ''Return code: '' @ str_int returncode) \<and>
         (err \<noteq> [] \<longrightarrow> suffix err res) \<and>
         art = None \<and> status = status_tool_failed tool \<and>
         history w' = history w \<and> db_connects w' = db_connects w"
proof (cases fobj)
  case None
  with run call show ?thesis
    by (auto simp: run_alignment_def Let_def split: option.splits)
next
  case (Some f)
  with run have run': "run_alignment env (Some f) tool st w = ((res, art, status), st', w')"
    by simp
  have detail: "error_detail err (if tool = ''MAFFT'' then None else Some out) returncode =
          (if err \<noteq> [] then err
           else if tool \<noteq> ''MAFFT'' \<and> out \<noteq> [] then out
           else ''Return code: '' @ str_int returncode)"
    by (simp add: error_detail_def)
  from run_alignment_paths [OF run'] show ?thesis
  proof (elim exE conjE disjE, goal_cases stage ret rd fin)
    case (stage w4 e)
    with call show ?case by simp
  next
    case (ret w4 w5 ro)
    from stage_input_frame [OF ret(6)] ret(3-5)
    have w5: "history w5 = history w" "db_connects w5 = db_connects w"
      "subprocess_calls w5 = subprocess_calls w" by simp_all
    from call w5 have "subprocess_calls w' =
        subprocess_calls w5 @ [(command, Exited returncode out err fs)]" by simp
    from run_tool_nonzero_exit [OF ret(7) this rc] ret(8)
    have "res = msg_tool_failed tool
                  (error_detail err (if tool = ''MAFFT'' then None else Some out) returncode)"
      "art = None" "status = status_tool_failed tool"
      by simp_all
    with w5 run_tool_frame [OF ret(7)] show ?case
      unfolding detail by (simp add: msg_tool_failed_def suffix_def)
  next
    case (rd w4 w5 w6 e)
    from stage_input_frame [OF rd(6)] rd(5)
    have "subprocess_calls w5 = subprocess_calls w" by simp
    with call rd(10) have "subprocess_calls w6 =
        subprocess_calls w5 @ [(command, Exited returncode out err fs)]" by simp
    from run_tool_nonzero_exit [OF rd(7) this rc] show ?case by simp
  next
    case (fin w4 w5 w6 content)
    from stage_input_frame [OF fin(6)] fin(5)
    have "subprocess_calls w5 = subprocess_calls w" by simp
    with call fin(10) have "subprocess_calls w6 =
        subprocess_calls w5 @ [(command, Exited returncode out err fs)]" by simp
    from run_tool_nonzero_exit [OF fin(7) this rc] show ?case by simp
  qed
qed

text \<open>The theorem at a MAFFT run of the example that exits with status 2.\<close>

theorem tool_failure_reported_witness:
  "subprocess_calls (snd (snd (run_alignment
       (example_env\<lparr>subprocess_run := (\<lambda>command fs. Exited 2 [] ''no sequences'' fs)\<rparr>)
       example_upload ''MAFFT'' (Some Map.empty) example_world))) =
     subprocess_calls example_world @
     [([''mafft'', ''--quiet'',
        ''uploads/input_fedcba9876543210fedcba9876543210_20250101_120000.fasta''],
       Exited 2 [] ''no sequences''
         ((files example_world)
            (''uploads/input_fedcba9876543210fedcba9876543210_20250101_120000.fasta'' \<mapsto>
               ''>a'' @ [CHR 0x0A] @ ''ACGT'' @ [CHR 0x0A] @ ''>b'' @ [CHR 0x0A] @ ''ACGA'' @
               [CHR 0x0A],
             ''results/result_fedcba9876543210fedcba9876543210_20250101_120000.aln'' \<mapsto> [])))] \<and>
   (2::int) \<noteq> 0 \<and>
   fst (run_alignment
       (example_env\<lparr>subprocess_run := (\<lambda>command fs. Exited 2 [] ''no sequences'' fs)\<rparr>)
       example_upload ''MAFFT'' (Some Map.empty) example_world) =
     (msg_tool_failed ''MAFFT'' ''no sequences'', None, status_tool_failed ''MAFFT'') \<and>
   history (snd (snd (run_alignment
       (example_env\<lparr>subprocess_run := (\<lambda>command fs. Exited 2 [] ''no sequences'' fs)\<rparr>)
       example_upload ''MAFFT'' (Some Map.empty) example_world))) = history example_world"
proof -
  let ?env = "example_env\<lparr>subprocess_run := (\<lambda>command fs. Exited 2 [] ''no sequences'' fs)\<rparr>"
  let ?R = "run_alignment ?env example_upload ''MAFFT'' (Some Map.empty) example_world"
  let ?out = "(msg_tool_failed ''MAFFT'' ''no sequences'', None, status_tool_failed ''MAFFT'')"
  have out: "fst ?R = ?out"
    by code_simp
  then have run: "?R = (?out, fst (snd ?R), snd (snd ?R))"
    by (rule triple_collapse)
  have call: "subprocess_calls (snd (snd ?R)) =
     subprocess_calls example_world @
     [([''mafft'', ''--quiet'',
        ''uploads/input_fedcba9876543210fedcba9876543210_20250101_120000.fasta''],
       Exited 2 [] ''no sequences''
         ((files example_world)
            (''uploads/input_fedcba9876543210fedcba9876543210_20250101_120000.fasta'' \<mapsto>
               ''>a'' @ [CHR 0x0A] @ ''ACGT'' @ [CHR 0x0A] @ ''>b'' @ [CHR 0x0A] @ ''ACGA'' @
               [CHR 0x0A],
             ''results/result_fedcba9876543210fedcba9876543210_20250101_120000.aln'' \<mapsto> [])))]"
    by (simp add: run_alignment_def example_env_def example_upload_def example_world_def Let_def
      state_dict_def resolve_session_def dict_get_def stage_input_def open_read_def run_tool_def
      logging_def tool_failed_def)
  have rc: "(2::int) \<noteq> 0" by simp
  from tool_failure_reported [OF run call rc] call rc out show ?thesis
    by blast
qed

subsection \<open>The outputs do not depend on the database\<close>

lemma logging_history_update:
  "logging l m (w\<lparr>history := t\<rparr>) = (logging l m w)\<lparr>history := t\<rparr>"
  by (simp add: logging_def)

lemma resolve_session_ignores_database:
  "resolve_session (env\<lparr>sqlite_fault := x\<rparr>) state (w\<lparr>history := t\<rparr>) =
     (case resolve_session env state w of
        (sid, state', w') \<Rightarrow> (sid, state', w'\<lparr>history := t\<rparr>))"
  by (simp add: resolve_session_def Let_def logging_def split: pyval.splits)

lemma open_read_ignores_database:
  "open_read (env\<lparr>sqlite_fault := x\<rparr>) (w\<lparr>history := t\<rparr>) p = open_read env w p"
  by (simp add: open_read_def split: option.splits)

lemma read_text_ignores_database:
  "read_text (env\<lparr>sqlite_fault := x\<rparr>) (w\<lparr>history := t\<rparr>) p = read_text env w p"
  by (simp add: read_text_def open_read_ignores_database split: sum.splits)

lemma stage_input_ignores_database:
  "stage_input (env\<lparr>sqlite_fault := x\<rparr>) f ip (w\<lparr>history := t\<rparr>) =
     map_sum id (\<lambda>w. w\<lparr>history := t\<rparr>) (stage_input env f ip w)"
  by (simp add: stage_input_def open_read_def logging_def 
      split: file_obj.splits option.splits sum.splits)

lemma run_tool_ignores_database:
  "run_tool (env\<lparr>sqlite_fault := x\<rparr>) tool tid ip op (w\<lparr>history := t\<rparr>) =
     map_prod id (\<lambda>w. w\<lparr>history := t\<rparr>) (run_tool env tool tid ip op w)"
  by (simp add: run_tool_def Let_def handle_exn_def tool_not_found_def unexpected_error_def
      tool_failed_def logging_def split: option.splits proc_outcome.splits exn.splits)

lemma received_state_history_update:
  "(case st of None \<Rightarrow> logging l m (w\<lparr>history := t\<rparr>) | Some d \<Rightarrow> w\<lparr>history := t\<rparr>) =
   (case st of None \<Rightarrow> logging l m w | Some d \<Rightarrow> w)\<lparr>history := t\<rparr>"
  by (simp add: logging_history_update split: option.splits)

lemma run_alignment_unfold:
  assumes "resolve_session env (state_dict st)
             (logging INFO (''Received state in run_alignment: '' @ repr_state env (state_dict st))
                (case st of
                   None \<Rightarrow> logging ERROR ''Session state received as None in run_alignment!'' w
                 | Some d \<Rightarrow> w)) = (sid, state', w3)"
  shows "run_alignment env (Some f) tool st w =
    (case stage_input env f
            (''uploads/'' @ ''input_'' @ uuid4 env (uuid_calls w3) @ ''_'' @ strftime_now env @
             ''.fasta'')
            (w3\<lparr>uuid_calls := Suc (uuid_calls w3)\<rparr>) of
       Inl e \<Rightarrow> ((msg_upload_error (str_exn e), None, status_save_failed),
                  map_option (\<lambda>d. state') st,
                  logging ERROR (''Error saving uploaded file: '' @ str_exn e)
                    (w3\<lparr>uuid_calls := Suc (uuid_calls w3)\<rparr>))
     | Inr w5 \<Rightarrow>
         (case run_tool env tool (uuid4 env (uuid_calls w3))
                 (''uploads/'' @ ''input_'' @ uuid4 env (uuid_calls w3) @ ''_'' @
                  strftime_now env @ ''.fasta'')
                 (''results/'' @ ''result_'' @ uuid4 env (uuid_calls w3) @ ''_'' @
                  strftime_now env @ ''.aln'') w5 of
            (Some r, w6) \<Rightarrow> (r, map_option (\<lambda>d. state') st, w6)
          | (None, w6) \<Rightarrow>
              (case read_text env w6
                      (''results/'' @ ''result_'' @ uuid4 env (uuid_calls w3) @ ''_'' @
                       strftime_now env @ ''.aln'') of
                 Inl e \<Rightarrow> ((msg_read_failed, None, status_read_failed),
                            map_option (\<lambda>d. state') st,
                            logging ERROR
                              (''Error reading result file '' @
                               (''results/'' @ ''result_'' @ uuid4 env (uuid_calls w3) @ ''_'' @
                                strftime_now env @ ''.aln'') @ '': '' @ str_exn e) w6)
               | Inr result_text \<Rightarrow>
                   ((result_text,
                     Some (''results/'' @ ''result_'' @ uuid4 env (uuid_calls w3) @ ''_'' @
                           strftime_now env @ ''.aln''),
                     status_done tool),
                    map_option (\<lambda>d. state') st,
                    save_to_db env sid (uuid4 env (uuid_calls w3)) tool
                      (''uploads/'' @ ''input_'' @ uuid4 env (uuid_calls w3) @ ''_'' @
                       strftime_now env @ ''.fasta'')
                      (''results/'' @ ''result_'' @ uuid4 env (uuid_calls w3) @ ''_'' @
                       strftime_now env @ ''.aln'')
                      (isoformat_now env)
                      (logging INFO
                         (''Result file '' @
                          (''results/'' @ ''result_'' @ uuid4 env (uuid_calls w3) @ ''_'' @
                           strftime_now env @ ''.aln'') @ '' read successfully.'') w6)))))"
  by (simp only: run_alignment_def Let_def assms option.case prod.case)

lemma outputs_ignore_database:
  "fst (run_alignment (env\<lparr>sqlite_fault := x\<rparr>) fobj tool st (w\<lparr>history := t\<rparr>)) =
   fst (run_alignment env fobj tool st w)"
proof (cases fobj)
  case None
  then show ?thesis by (simp add: run_alignment_def Let_def)
next
  case (Some f)
  let ?env' = "env\<lparr>sqlite_fault := x\<rparr>"
  let ?w2 = "logging INFO (''Received state in run_alignment: '' @ repr_state env (state_dict st))
              (case st of
                 None \<Rightarrow> logging ERROR ''Session state received as None in run_alignment!'' w
               | Some d \<Rightarrow> w)"
  let ?w2' = "logging INFO
               (''Received state in run_alignment: '' @ repr_state ?env' (state_dict st))
              (case st of
                 None \<Rightarrow> logging ERROR ''Session state received as None in run_alignment!''
                           (w\<lparr>history := t\<rparr>)
               | Some d \<Rightarrow> w\<lparr>history := t\<rparr>)"
  obtain sid state' w3 where rs: "resolve_session env (state_dict st) ?w2 = (sid, state', w3)"
    by (metis prod_cases3)
  have "?w2' = ?w2\<lparr>history := t\<rparr>"
    by (simp add: logging_history_update split: option.splits)
  with resolve_session_ignores_database [where env = env and x = x and state = "state_dict st"
      and w = ?w2 and t = t] rs
  have rs': "resolve_session ?env' (state_dict st) ?w2' = (sid, state', w3\<lparr>history := t\<rparr>)"
    by simp
  note U = run_alignment_unfold [OF rs, of f tool] and U' = run_alignment_unfold [OF rs', of f tool]
  define tid where "tid = uuid4 env (uuid_calls w3)"
  define ip where "ip = ''uploads/'' @ ''input_'' @ tid @ ''_'' @ strftime_now env @ ''.fasta''"
  define op where "op = ''results/'' @ ''result_'' @ tid @ ''_'' @ strftime_now env @ ''.aln''"
  define w4 where "w4 = w3\<lparr>uuid_calls := Suc (uuid_calls w3)\<rparr>"
  have w4': "(w3\<lparr>history := t\<rparr>)\<lparr>uuid_calls := Suc (uuid_calls (w3\<lparr>history := t\<rparr>))\<rparr> =
             w4\<lparr>history := t\<rparr>"
    by (simp add: w4_def)
  have V: "fst (run_alignment env (Some f) tool st w) =
     (case stage_input env f ip w4 of
       Inl e \<Rightarrow> (msg_upload_error (str_exn e), None, status_save_failed)
     | Inr w5 \<Rightarrow>
         (case run_tool env tool tid ip op w5 of
            (Some r, w6) \<Rightarrow> r
          | (None, w6) \<Rightarrow>
              (case read_text env w6 op of
                 Inl e \<Rightarrow> (msg_read_failed, None, status_read_failed)
               | Inr result_text \<Rightarrow> (result_text, Some op, status_done tool))))"
    unfolding U tid_def ip_def op_def w4_def
    by (simp split: sum.splits prod.splits option.splits)
  have V': "fst (run_alignment ?env' (Some f) tool st (w\<lparr>history := t\<rparr>)) =
     (case stage_input ?env' f ip (w4\<lparr>history := t\<rparr>) of
       Inl e \<Rightarrow> (msg_upload_error (str_exn e), None, status_save_failed)
     | Inr w5 \<Rightarrow>
         (case run_tool ?env' tool tid ip op w5 of
            (Some r, w6) \<Rightarrow> r
          | (None, w6) \<Rightarrow>
              (case read_text ?env' w6 op of
                 Inl e \<Rightarrow> (msg_read_failed, None, status_read_failed)
               | Inr result_text \<Rightarrow> (result_text, Some op, status_done tool))))"
    unfolding U' tid_def ip_def op_def w4'[symmetric]
    by (simp split: sum.splits prod.splits option.splits)
  show ?thesis
    unfolding Some V V' stage_input_ignores_database
  proof (cases "stage_input env f ip w4")
    case (Inl e)
    then show "(case map_sum id (\<lambda>w. w\<lparr>history := t\<rparr>) (stage_input env f ip w4) of
       Inl e \<Rightarrow> (msg_upload_error (str_exn e), None, status_save_failed)
     | Inr w5 \<Rightarrow>
         (case run_tool ?env' tool tid ip op w5 of
            (Some r, w6) \<Rightarrow> r
          | (None, w6) \<Rightarrow>
              (case read_text ?env' w6 op of
                 Inl e \<Rightarrow> (msg_read_failed, None, status_read_failed)
               | Inr result_text \<Rightarrow> (result_text, Some op, status_done tool)))) =
     (case stage_input env f ip w4 of
       Inl e \<Rightarrow> (msg_upload_error (str_exn e), None, status_save_failed)
     | Inr w5 \<Rightarrow>
         (case run_tool env tool tid ip op w5 of
            (Some r, w6) \<Rightarrow> r
          | (None, w6) \<Rightarrow>
              (case read_text env w6 op of
                 Inl e \<Rightarrow> (msg_read_failed, None, status_read_failed)
               | Inr result_text \<Rightarrow> (result_text, Some op, status_done tool))))"
      by simp
  next
    case (Inr w5)
    obtain ro w6 where rt: "run_tool env tool tid ip op w5 = (ro, w6)"
      by (cases "run_tool env tool tid ip op w5")
    show "(case map_sum id (\<lambda>w. w\<lparr>history := t\<rparr>) (stage_input env f ip w4) of
       Inl e \<Rightarrow> (msg_upload_error (str_exn e), None, status_save_failed)
     | Inr w5 \<Rightarrow>
         (case run_tool ?env' tool tid ip op w5 of
            (Some r, w6) \<Rightarrow> r
          | (None, w6) \<Rightarrow>
              (case read_text ?env' w6 op of
                 Inl e \<Rightarrow> (msg_read_failed, None, status_read_failed)
               | Inr result_text \<Rightarrow> (result_text, Some op, status_done tool)))) =
     (case stage_input env f ip w4 of
       Inl e \<Rightarrow> (msg_upload_error (str_exn e), None, status_save_failed)
     | Inr w5 \<Rightarrow>
         (case run_tool env tool tid ip op w5 of
            (Some r, w6) \<Rightarrow> r
          | (None, w6) \<Rightarrow>
              (case read_text env w6 op of
                 Inl e \<Rightarrow> (msg_read_failed, None, status_read_failed)
               | Inr result_text \<Rightarrow> (result_text, Some op, status_done tool))))"
      by (cases ro)
        (simp_all add: Inr rt run_tool_ignores_database read_text_ignores_database
          split: sum.splits)
  qed
qed

lemma save_to_db_failed_logged:
  assumes "history (save_to_db env sid tid tool ip op ts w) = history w"
  shows "log_records (save_to_db env sid tid tool ip op ts w) =
           log_records w @
           [(ERROR, ''Database error saving task '' @ tid @ '': '' @
                    (case sqlite_fault env of
                       Some m \<Rightarrow> m
                     | None \<Rightarrow> ''UNIQUE constraint failed: history.task_id''))]"
proof (cases "sqlite_fault env")
  case (Some m)
  then show ?thesis
    by (simp add: save_to_db_def Let_def)
next
  case None
  show ?thesis
  proof (cases "tid \<in> set (map col_task_id (history w))")
    case True
    with None show ?thesis
      by (simp add: save_to_db_def Let_def insert_history_def)
  next
    case False
    with None assms show ?thesis
      by (simp add: save_to_db_def Let_def insert_history_def)
  qed
qed

text \<open>
  Claim C3. Take a submission for which the tool invocation and the reading of the output
  succeed: against a working database (no fault, and an empty table, on which the insert
  succeeds) it is completed with result text \<open>res\<close>, artifact reference \<open>art\<close> and the
  status of a completed task. If in the actual run the history append fails with a
  database error, so that the table is as it was, the caller still receives exactly
  \<open>res\<close>, \<open>art\<close> and the success status: nothing is overwritten or downgraded. The
  artifact reference is not \<^verbatim>\<open>None\<close>, and the failure is only logged: the last log
  record is the error of line 32 with the message of the database.
\<close>

theorem database_error_keeps_result:
  assumes working: "fst (run_alignment (env\<lparr>sqlite_fault := None\<rparr>) fobj tool st
                           (w\<lparr>history := []\<rparr>)) = (res, art, status_done tool)"
    and run: "run_alignment env fobj tool st w = (r, st', w')"
    and failed: "history w' = history w"
  shows "r = (res, art, status_done tool) \<and>
         art \<noteq> None \<and>
         last (log_records w') =
           (ERROR, ''Database error saving task '' @
                   uuid4 env (uuid_calls (snd (snd (resolve_session env (state_dict st) w)))) @
                   '': '' @
                   (case sqlite_fault env of
                      Some m \<Rightarrow> m
                    | None \<Rightarrow> ''UNIQUE constraint failed: history.task_id''))"
proof -
  have same: "r = (res, art, status_done tool)"
    using outputs_ignore_database [where env = env and x = None and fobj = fobj and tool = tool
        and st = st and w = w and t = "[]"] run working by simp
  with run have run0: "run_alignment env fobj tool st w = ((res, art, status_done tool), st', w')"
    by simp
  obtain f where f: "fobj = Some f"
    using run0 by (cases fobj) (auto simp: run_alignment_def Let_def)
  with run0 have run': "run_alignment env (Some f) tool st w =
      ((res, art, status_done tool), st', w')"
    by simp
  from run_alignment_paths [OF run']
  have "art \<noteq> None \<and>
         last (log_records w') =
           (ERROR, ''Database error saving task '' @
                   uuid4 env (uuid_calls (snd (snd (resolve_session env (state_dict st) w)))) @
                   '': '' @
                   (case sqlite_fault env of
                      Some m \<Rightarrow> m
                    | None \<Rightarrow> ''UNIQUE constraint failed: history.task_id''))"
  proof (elim exE conjE disjE, goal_cases stage ret rd fin)
    case (stage w4 e)
    then show ?case by simp
  next
    case (ret w4 w5 out)
    from ret(7,8) run_tool_returned [of env tool _ _ _ w5 res art "status_done tool" w']
    show ?case by simp
  next
    case (rd w4 w5 w6 e)
    then show ?case by simp
  next
    case (fin w4 w5 w6 content)
    from stage_input_frame [OF fin(6)] fin(3)
    have "history w5 = history w" by simp
    with run_tool_frame [OF fin(7)] have "history w6 = history w" by simp
    with failed fin(10) save_to_db_failed_logged
    show ?case using fin(9) by simp
  qed
  with same show ?thesis by simp
qed

text \<open>The theorem at a completed MAFFT run of the example against a locked database.\<close>

theorem database_error_keeps_result_witness:
  "fst (run_alignment (example_env\<lparr>sqlite_fault := Some ''database is locked'',
                                   sqlite_fault := None\<rparr>)
          example_upload ''MAFFT'' (Some Map.empty) (example_world\<lparr>history := []\<rparr>)) =
     (''>a'' @ [CHR 0x0A] @ ''ACGT'' @ [CHR 0x0A] @ ''>b'' @ [CHR 0x0A] @ ''ACGA'' @ [CHR 0x0A],
      Some ''results/result_fedcba9876543210fedcba9876543210_20250101_120000.aln'',
      status_done ''MAFFT'') \<and>
   history (snd (snd (run_alignment (example_env\<lparr>sqlite_fault := Some ''database is locked''\<rparr>)
                        example_upload ''MAFFT'' (Some Map.empty) example_world))) =
     history example_world \<and>
   fst (run_alignment (example_env\<lparr>sqlite_fault := Some ''database is locked''\<rparr>)
          example_upload ''MAFFT'' (Some Map.empty) example_world) =
     (''>a'' @ [CHR 0x0A] @ ''ACGT'' @ [CHR 0x0A] @ ''>b'' @ [CHR 0x0A] @ ''ACGA'' @ [CHR 0x0A],
      Some ''results/result_fedcba9876543210fedcba9876543210_20250101_120000.aln'',
      status_done ''MAFFT'') \<and>
   last (log_records (snd (snd (run_alignment
           (example_env\<lparr>sqlite_fault := Some ''database is locked''\<rparr>)
           example_upload ''MAFFT'' (Some Map.empty) example_world)))) =
     (ERROR, ''Database error saving task fedcba9876543210fedcba9876543210: database is locked'')"
proof -
  let ?env = "example_env\<lparr>sqlite_fault := Some ''database is locked''\<rparr>"
  let ?R = "run_alignment ?env example_upload ''MAFFT'' (Some Map.empty) example_world"
  let ?out = "(''>a'' @ [CHR 0x0A] @ ''ACGT'' @ [CHR 0x0A] @ ''>b'' @ [CHR 0x0A] @ ''ACGA'' @
               [CHR 0x0A],
               Some ''results/result_fedcba9876543210fedcba9876543210_20250101_120000.aln'',
               status_done ''MAFFT'')"
  have working: "fst (run_alignment (?env\<lparr>sqlite_fault := None\<rparr>) example_upload ''MAFFT''
                        (Some Map.empty) (example_world\<lparr>history := []\<rparr>)) = ?out"
    by code_simp
  have run: "?R = (fst ?R, fst (snd ?R), snd (snd ?R))"
    by simp
  have failed: "history (snd (snd ?R)) = history example_world"
    by code_simp
  have tid: "uuid4 ?env (uuid_calls (snd (snd (resolve_session ?env (state_dict (Some Map.empty))
               example_world)))) = ''fedcba9876543210fedcba9876543210''"
    by code_simp
  from database_error_keeps_result [OF working run failed] working failed
  show ?thesis
    unfolding tid by simp
qed

subsection \<open>The history query\<close>

text \<open>
  Every insert gives the new row an id above all ids in the table, so the ids increase
  along the table and \<^verbatim>\<open>ORDER BY id DESC\<close> is the reverse of the order of insertion.
\<close>

lemma fold_max_ge: "a \<le> fold max xs (a::nat) \<and> (\<forall>x\<in>set xs. x \<le> fold max xs a)"
proof (induction xs arbitrary: a)
  case Nil
  then show ?case by simp
next
  case (Cons y ys)
  from Cons.IH [of "max y a"] show ?case by auto
qed

lemma next_row_id_greater: "r \<in> set t \<Longrightarrow> col_id r < next_row_id t"
  using fold_max_ge [of 0 "map col_id t"] by (auto simp: next_row_id_def less_Suc_eq_le)

lemma save_to_db_ids_increasing:
  assumes "sorted_wrt (<) (map col_id (history w))"
  shows "sorted_wrt (<) (map col_id (history (save_to_db env sid tid tool ip op ts w)))"
  using assms
  by (auto simp: save_to_db_history_eq sorted_wrt_append dest: next_row_id_greater)

lemma save_tasks_ids_increasing:
  "sorted_wrt (<) (map col_id (history w)) \<Longrightarrow>
   sorted_wrt (<) (map col_id (history (save_tasks env tasks w)))"
proof (induction tasks arbitrary: w)
  case Nil
  then show ?case by simp
next
  case (Cons v tasks)
  obtain sid tid tool ip op ts where v: "v = (sid, tid, tool, ip, op, ts)"
    by (metis prod_cases3)
  from Cons.prems have "sorted_wrt (<) (map col_id (history (save_to_db env sid tid tool ip op ts w)))"
    by (rule save_to_db_ids_increasing)
  from Cons.IH [OF this] show ?case by (simp add: v)
qed

lemma save_tasks_row_values:
  assumes "sqlite_fault env = None"
  shows "distinct (map (\<lambda>v. fst (snd v)) tasks) \<Longrightarrow>
   set (map (\<lambda>v. fst (snd v)) tasks) \<inter> set (map col_task_id (history w)) = {} \<Longrightarrow>
   map row_values (history (save_tasks env tasks w)) = map row_values (history w) @ tasks"
proof (induction tasks arbitrary: w)
  case Nil
  then show ?case by simp
next
  case (Cons v tasks)
  obtain sid tid tool ip op ts where v: "v = (sid, tid, tool, ip, op, ts)"
    by (metis prod_cases3)
  let ?w = "save_to_db env sid tid tool ip op ts w"
  from Cons.prems(2) have fresh: "tid \<notin> set (map col_task_id (history w))"
    by (auto simp: v)
  with assms have h: "history ?w = history w @
      [\<lparr>col_id = next_row_id (history w), col_session_id = sid, col_task_id = tid,
        col_tool = tool, col_input_file = ip, col_output_file = op, col_timestamp = ts\<rparr>]"
    by (simp add: save_to_db_history_eq)
  from Cons.prems have d: "distinct (map (\<lambda>v. fst (snd v)) tasks)"
    and "set (map (\<lambda>v. fst (snd v)) tasks) \<inter> set (map col_task_id (history ?w)) = {}"
    by (auto simp: v h)
  from Cons.IH [OF this] show ?case
    by (simp add: v h row_values_def)
qed

lemma select_history_increasing:
  assumes "sorted_wrt (<) (map col_id t)"
  shows "select_history t sid =
           map select_columns (take 20 (rev (filter (\<lambda>r. col_session_id r = sid) t)))"
proof -
  from assms have "sorted_wrt (\<lambda>x y. col_id x < col_id y) t"
    by (simp add: sorted_wrt_map)
  then have "sorted_wrt (\<lambda>x y. col_id x < col_id y) (filter (\<lambda>r. col_session_id r = sid) t)"
    by (rule sorted_wrt_filter)
  then have "sorted_wrt (<) (map col_id (filter (\<lambda>r. col_session_id r = sid) t))"
    by (simp add: sorted_wrt_map)
  then have "sorted (map col_id (filter (\<lambda>r. col_session_id r = sid) t))"
    by (rule strict_sorted_imp_sorted)
  then have "sort_key col_id (filter (\<lambda>r. col_session_id r = sid) t) =
             filter (\<lambda>r. col_session_id r = sid) t"
    by (rule sort_key_id_if_sorted)
  then show ?thesis by (simp add: select_history_def)
qed

text \<open>
  Claim C6. Let the completed tasks \<open>tasks\<close> (of any sessions, with distinct task
  identities) be recorded in this order by \<^verbatim>\<open>save_to_db\<close>, starting from the empty
  table, in a database that raises no error. Then the table holds exactly these tasks in
  this order. For a session state that carries the identity \<open>sid\<close>, \<^verbatim>\<open>show_history\<close>
  returns the table text of the rows of that session only, newest first by insertion: the
  reverse of the session's rows when there are at most 20 of them, and the 20 most recent
  otherwise (and the message "no history" for this identity when the session has no row).
  These are the rows its query (lines 148-156) returns.
\<close>

theorem history_query_newest_first:
  assumes db: "sqlite_fault env = None"
    and empty: "history w = []"
    and tasks: "distinct (map (\<lambda>v. fst (snd v)) tasks)"
    and ctx: "dict_get (state_dict st) ''session_id'' = PyStr sid" "sid \<noteq> []"
  shows "map row_values (history (save_tasks env tasks w)) = tasks \<and>
         fst (show_history env st (save_tasks env tasks w)) =
           (if filter (\<lambda>r. col_session_id r = sid) (history (save_tasks env tasks w)) = []
            then msg_no_history_for (last6 sid)
            else format_rows
                   (map select_columns
                      (take 20 (rev (filter (\<lambda>r. col_session_id r = sid)
                                       (history (save_tasks env tasks w))))))) \<and>
         select_history (history (save_tasks env tasks w)) sid =
           map select_columns
             (take 20 (rev (filter (\<lambda>r. col_session_id r = sid)
                              (history (save_tasks env tasks w))))) \<and>
         (length (filter (\<lambda>r. col_session_id r = sid) (history (save_tasks env tasks w))) \<le> 20
            \<longrightarrow> select_history (history (save_tasks env tasks w)) sid =
                  map select_columns
                    (rev (filter (\<lambda>r. col_session_id r = sid)
                            (history (save_tasks env tasks w)))))"
proof -
  from empty have "sorted_wrt (<) (map col_id (history w))" by simp
  then have "sorted_wrt (<) (map col_id (history (save_tasks env tasks w)))"
    by (rule save_tasks_ids_increasing)
  then have sel: "select_history (history (save_tasks env tasks w)) sid =
           map select_columns
             (take 20 (rev (filter (\<lambda>r. col_session_id r = sid)
                              (history (save_tasks env tasks w)))))"
    by (rule select_history_increasing)
  from save_tasks_row_values [OF db tasks, of w] empty
  have vals: "map row_values (history (save_tasks env tasks w)) = tasks" by simp
  have shown: "fst (show_history env st (save_tasks env tasks w)) =
           (if filter (\<lambda>r. col_session_id r = sid) (history (save_tasks env tasks w)) = []
            then msg_no_history_for (last6 sid)
            else format_rows
                   (map select_columns
                      (take 20 (rev (filter (\<lambda>r. col_session_id r = sid)
                                       (history (save_tasks env tasks w)))))))"
    unfolding show_history_rows [OF ctx db] sel by simp
  from vals shown sel show ?thesis by simp
qed

text \<open>
  The theorem at three tasks of two sessions: the query for the first session returns its
  two tasks, the later one first, and not the task of the other session.
\<close>

theorem history_query_newest_first_witness:
  "sqlite_fault example_env = None \<and> history example_world = [] \<and>
   distinct (map (\<lambda>v. fst (snd v))
     [(''s1'', ''t1'', ''MAFFT'', ''uploads/input_t1.fasta'', ''results/result_t1.aln'', ''09:00''),
      (''s2'', ''t2'', ''MUSCLE'', ''uploads/input_t2.fasta'', ''results/result_t2.aln'', ''09:05''),
      (''s1'', ''t3'', ''MUSCLE'', ''uploads/input_t3.fasta'', ''results/result_t3.aln'', ''09:10'')]) \<and>
   dict_get (state_dict (Some [''session_id'' \<mapsto> PyStr ''s1''])) ''session_id'' = PyStr ''s1'' \<and>
   ''s1'' \<noteq> [] \<and>
   fst (show_history example_env (Some [''session_id'' \<mapsto> PyStr ''s1''])
     (save_tasks example_env
     [(''s1'', ''t1'', ''MAFFT'', ''uploads/input_t1.fasta'', ''results/result_t1.aln'', ''09:00''),
      (''s2'', ''t2'', ''MUSCLE'', ''uploads/input_t2.fasta'', ''results/result_t2.aln'', ''09:05''),
      (''s1'', ''t3'', ''MUSCLE'', ''uploads/input_t3.fasta'', ''results/result_t3.aln'', ''09:10'')]
     example_world)) =
     format_rows [(''09:10'', ''MUSCLE'', ''input_t3.fasta'', ''result_t3.aln''),
                  (''09:00'', ''MAFFT'', ''input_t1.fasta'', ''result_t1.aln'')]"
proof -
  let ?tasks =
    "[(''s1'', ''t1'', ''MAFFT'', ''uploads/input_t1.fasta'', ''results/result_t1.aln'', ''09:00''),
      (''s2'', ''t2'', ''MUSCLE'', ''uploads/input_t2.fasta'', ''results/result_t2.aln'', ''09:05''),
      (''s1'', ''t3'', ''MUSCLE'', ''uploads/input_t3.fasta'', ''results/result_t3.aln'', ''09:10'')]"
  let ?st = "Some [''session_id'' \<mapsto> PyStr ''s1'']"
  let ?t = "history (save_tasks example_env ?tasks example_world)"
  have db: "sqlite_fault example_env = None"
    by (simp add: example_env_def)
  have empty: "history example_world = []"
    by (simp add: example_world_def)
  have tasks: "distinct (map (\<lambda>v. fst (snd v)) ?tasks)"
    by simp
  have ctx: "dict_get (state_dict ?st) ''session_id'' = PyStr ''s1''" "''s1'' \<noteq> []"
    by (simp_all add: dict_get_def state_dict_def)
  from history_query_newest_first [OF db empty tasks ctx]
  have "fst (show_history example_env ?st (save_tasks example_env ?tasks example_world)) =
          (if filter (\<lambda>r. col_session_id r = ''s1'') ?t = []
           then msg_no_history_for (last6 ''s1'')
           else format_rows
                  (map select_columns
                     (take 20 (rev (filter (\<lambda>r. col_session_id r = ''s1'') ?t)))))"
    by blast
  also have "\<dots> = format_rows [(''09:10'', ''MUSCLE'', ''input_t3.fasta'', ''result_t3.aln''),
                                (''09:00'', ''MAFFT'', ''input_t1.fasta'', ''result_t1.aln'')]"
    by code_simp
  finally show ?thesis using db empty tasks ctx by blast
qed

end
